theory Spec2Isabelle
  imports Main "HOL-Library.Monad_Syntax"
begin

section \<open>Fixed-point values\<close>

text \<open>
  Modelled from the spec: the numeric class \<open>I80F48\<close> (module \<open>./fixednum\<close>) is not among
  the source files. The spec (sections 3 and 4.1) describes a signed number with 48
  fractional bits, held as a scaled integer, with comparisons on the scaled integer.
  A value is modelled by its scaled integer: the number \<open>x\<close> is the integer \<open>x * 2^48\<close>.
  Addition, subtraction, negation and absolute value are exact. Multiplication and
  division compute the exact quotient of scaled integers and drop the fraction; the spec
  leaves the direction open, and the quotient taken here truncates towards zero, as
  big-integer division does. Dividing by zero has no result (\<open>None\<close>: the call throws).
  The 128-bit range of the reference type is not modelled: scaled integers are unbounded.
  The in-place variants (\<open>iadd\<close>, \<open>isub\<close>, \<open>imul\<close>) compute the same values as
  \<open>add\<close>, \<open>sub\<close>, \<open>mul\<close>; in the functions modelled below they are only applied to
  objects that the same expression has just created, so no other value is changed.
\<close>

type_synonym I80F48 = int

definition MULTIPLIER :: int where
  "MULTIPLIER = 2 ^ 48"

definition ZERO_I80F48 :: I80F48 where
  "ZERO_I80F48 = 0"

definition ONE_I80F48 :: I80F48 where
  "ONE_I80F48 = MULTIPLIER"

text \<open>Integer quotient truncated towards zero.\<close>

definition tquot :: "int \<Rightarrow> int \<Rightarrow> int" where
  "tquot a b = sgn a * sgn b * (\<bar>a\<bar> div \<bar>b\<bar>)"

text \<open>
  \<open>I80F48.fromI64\<close> on a big integer, and \<open>I80F48.fromNumber\<close> on a whole number: the
  fixed-point value of an integer.
\<close>

definition fromI64 :: "int \<Rightarrow> I80F48" where
  "fromI64 n = n * MULTIPLIER"

definition fromNumber :: "int \<Rightarrow> I80F48" where
  "fromNumber n = n * MULTIPLIER"

definition I80F48_add :: "I80F48 \<Rightarrow> I80F48 \<Rightarrow> I80F48" where
  "I80F48_add x y = x + y"

definition I80F48_sub :: "I80F48 \<Rightarrow> I80F48 \<Rightarrow> I80F48" where
  "I80F48_sub x y = x - y"

definition I80F48_neg :: "I80F48 \<Rightarrow> I80F48" where
  "I80F48_neg x = - x"

definition I80F48_abs :: "I80F48 \<Rightarrow> I80F48" where
  "I80F48_abs x = \<bar>x\<bar>"

definition I80F48_mul :: "I80F48 \<Rightarrow> I80F48 \<Rightarrow> I80F48" where
  "I80F48_mul x y = tquot (x * y) MULTIPLIER"

text \<open>The quotient \<open>x / y\<close> for \<open>y\<close> other than zero, and \<open>div\<close>, which throws on zero.\<close>

definition I80F48_quot :: "I80F48 \<Rightarrow> I80F48 \<Rightarrow> I80F48" where
  "I80F48_quot x y = tquot (x * MULTIPLIER) y"

definition I80F48_div :: "I80F48 \<Rightarrow> I80F48 \<Rightarrow> I80F48 option" where
  "I80F48_div x y = (if y = 0 then None else Some (I80F48_quot x y))"

definition I80F48_gt :: "I80F48 \<Rightarrow> I80F48 \<Rightarrow> bool" where
  "I80F48_gt x y = (x > y)"





definition isPos :: "I80F48 \<Rightarrow> bool" where
  "isPos x = I80F48_gt x ZERO_I80F48"

definition isNeg :: "I80F48 \<Rightarrow> bool" where
  "isNeg x = (x < 0)"


section \<open>Account snapshot, market registry and caches\<close>

text \<open>
  The layouts (module \<open>./layout\<close>), \<open>EntropyGroup\<close> and \<open>PerpAccount\<close> are not among the
  source files; the records hold the fields that \<open>EntropyAccount\<close> reads. Arrays are
  lists. A public key is a number, \<open>zeroKey\<close> the key of an unregistered market.
  Lot sizes and perp quantities are big integers (\<open>BN\<close>), modelled as \<open>int\<close>.
\<close>

type_synonym PublicKey = nat

definition zeroKey :: PublicKey where
  "zeroKey = 0"

datatype HealthType = Init | Maint

record RootBankCache =
  depositIndex :: I80F48
  borrowIndex :: I80F48

record PriceCache =
  price :: I80F48

record PerpMarketCache =
  longFunding :: I80F48
  shortFunding :: I80F48

record MarketWeights =
  maintAssetWeight :: I80F48
  initAssetWeight :: I80F48
  maintLiabWeight :: I80F48
  initLiabWeight :: I80F48

record SpotMarketInfo = MarketWeights +
  spotMarket :: PublicKey

record PerpMarketInfo = MarketWeights +
  perpMarket :: PublicKey
  baseLotSize :: int
  quoteLotSize :: int

record TokenInfo =
  decimals :: nat

record EntropyGroup =
  numOracles :: nat
  tokens :: "TokenInfo list"
  spotMarkets :: "SpotMarketInfo list"
  perpMarkets :: "PerpMarketInfo list"

record EntropyCache =
  priceCache :: "PriceCache list"
  rootBankCache :: "RootBankCache list"
  perpMarketCache :: "PerpMarketCache list"

text \<open>
  Modelled from the spec: \<open>PerpAccount.getQuotePosition\<close> is not among the source files.
  The spec's perp position carries "a funding-adjusted running quote balance supplied by
  a perp-funding evaluator collaborator"; it is the field \<open>fundingAdjustedQuotePosition\<close>.
\<close>

record PerpAccount =
  basePosition :: int
  takerBase :: int
  takerQuote :: int
  bidsQuantity :: int
  asksQuantity :: int
  fundingAdjustedQuotePosition :: I80F48

text \<open>
  Modelled from the spec: \<open>splitOpenOrders\<close> (module \<open>./utils\<close>) is not among the source
  files. The spec's open-orders snapshot has the four amounts it returns.
\<close>

record OpenOrders =
  quoteFree :: I80F48
  quoteLocked :: I80F48
  baseFree :: I80F48
  baseLocked :: I80F48

record EntropyAccount =
  inMarginBasket :: "bool list"
  deposits :: "I80F48 list"
  borrows :: "I80F48 list"
  spotOpenOrdersAccounts :: "OpenOrders option list"
  perpAccounts :: "PerpAccount list"
  beingLiquidated :: bool

text \<open>
  Modelled from the spec: the constant \<open>QUOTE_INDEX\<close> (module \<open>./layout\<close>) is not among
  the source files. The spec reserves for the quote currency an index outside the oracle
  range; the reference layout has 16 token slots, the last one the quote currency.
\<close>

definition QUOTE_INDEX :: nat where
  "QUOTE_INDEX = 15"

text \<open>
  An array read \<open>xs[i]\<close>: \<open>None\<close> is JavaScript's \<open>undefined\<close>. Reading a property of
  \<open>undefined\<close> throws a \<open>TypeError\<close>; a function that throws returns \<open>None\<close>.
\<close>

definition at :: "'a list \<Rightarrow> nat \<Rightarrow> 'a option" where
  "at xs i = (if i < length xs then Some (xs ! i) else None)"

definition getQuotePosition :: "PerpAccount \<Rightarrow> PerpMarketCache \<Rightarrow> I80F48" where
  "getQuotePosition perpAccount cache = fundingAdjustedQuotePosition perpAccount"

record Weights =
  spotAssetWeight :: I80F48
  spotLiabWeight :: I80F48
  perpAssetWeight :: I80F48
  perpLiabWeight :: I80F48

text \<open>
  Modelled from the spec: \<open>getWeights\<close> (module \<open>./utils\<close>) is not among the source
  files. It selects, for one market, the spot and perp asset and liability weights of
  the table that matches the health type; the market's entries are read from the
  registry, so a market index outside it throws.
\<close>

definition getWeights :: "EntropyGroup \<Rightarrow> nat \<Rightarrow> HealthType \<Rightarrow> Weights option" where
  "getWeights entropyGroup marketIndex healthType = do {
     sm \<leftarrow> at (spotMarkets entropyGroup) marketIndex;
     pm \<leftarrow> at (perpMarkets entropyGroup) marketIndex;
     Some (case healthType of
        Maint \<Rightarrow> \<lparr> spotAssetWeight = maintAssetWeight sm, spotLiabWeight = maintLiabWeight sm,
                   perpAssetWeight = maintAssetWeight pm, perpLiabWeight = maintLiabWeight pm \<rparr>
      | Init \<Rightarrow> \<lparr> spotAssetWeight = initAssetWeight sm, spotLiabWeight = initLiabWeight sm,
                  perpAssetWeight = initAssetWeight pm, perpLiabWeight = initLiabWeight pm \<rparr>)
   }"

section \<open>Loops\<close>

text \<open>\<open>for (let i = lo; i < n; i++) body\<close>, the state passed along; a throwing body ends it.\<close>

function forLoop :: "nat \<Rightarrow> nat \<Rightarrow> (nat \<Rightarrow> 's \<Rightarrow> 's option) \<Rightarrow> 's \<Rightarrow> 's option" where
  "forLoop i n body st =
     (if i < n then (case body i st of None \<Rightarrow> None | Some st' \<Rightarrow> forLoop (Suc i) n body st')
      else Some st)"
  by pat_completeness auto
termination
  by (relation "measure (\<lambda>(i, n, body, st). n - i)") auto

declare forLoop.simps [simp del]

section \<open>Health-component resolver\<close>

record HealthComponents =
  spot :: "I80F48 list"
  perps :: "I80F48 list"
  quote :: I80F48

text \<open>\<open>getNet\<close>: deposits minus borrows of one token, in native terms.\<close>

definition getNet :: "EntropyAccount \<Rightarrow> RootBankCache \<Rightarrow> nat \<Rightarrow> I80F48 option" where
  "getNet acct bankCache tokenIndex = do {
     d \<leftarrow> at (deposits acct) tokenIndex;
     b \<leftarrow> at (borrows acct) tokenIndex;
     Some (I80F48_sub (I80F48_mul d (depositIndex bankCache))
                      (I80F48_mul b (borrowIndex bankCache)))
   }"

text \<open>
  The test \<open>this.inMarginBasket[i] && openOrders !== undefined\<close>: the open-orders
  record of market \<open>i\<close> when the flag is set and the record is there. Neither read
  throws: an index outside either array reads \<open>undefined\<close>, which fails the test.
\<close>

definition openOrdersInBasket :: "EntropyAccount \<Rightarrow> nat \<Rightarrow> OpenOrders option" where
  "openOrdersInBasket acct i =
     (if at (inMarginBasket acct) i = Some True
      then (case at (spotOpenOrdersAccounts acct) i of Some (Some oo) \<Rightarrow> Some oo | _ \<Rightarrow> None)
      else None)"

text \<open>
  The loop body of \<open>getHealthComponents\<close>, in its two parts ("Evaluate spot first",
  "Evaluate perps"). The loop only writes \<open>spot[i]\<close> and \<open>perps[i]\<close> for \<open>i\<close> below the
  arrays' length. For a registered perp market the body reads the fields of the market's
  perp account and hands its cache entry to \<open>getQuotePosition\<close>; the model throws when
  either is missing.
\<close>

definition evalSpot ::
  "EntropyAccount \<Rightarrow> nat \<Rightarrow> I80F48 \<Rightarrow> I80F48 \<Rightarrow> HealthComponents \<Rightarrow> HealthComponents option" where
  "evalSpot acct i pr baseNet hc =
     (case openOrdersInBasket acct i of
        Some oo \<Rightarrow> do {
          q \<leftarrow> I80F48_div (quoteLocked oo) pr;
          let bidsBaseNet =
            I80F48_add (I80F48_add (I80F48_add baseNet q) (baseFree oo)) (baseLocked oo);
          let asksBaseNet = I80F48_add baseNet (baseFree oo);
          Some (if I80F48_gt (I80F48_abs bidsBaseNet) (I80F48_abs asksBaseNet)
                then hc\<lparr> spot := (spot hc)[i := bidsBaseNet],
                         quote := I80F48_add (quote hc) (quoteFree oo) \<rparr>
                else hc\<lparr> spot := (spot hc)[i := asksBaseNet],
                         quote := I80F48_add (I80F48_add
                                    (I80F48_add (quote hc) (I80F48_mul (baseLocked oo) pr))
                                    (quoteFree oo)) (quoteLocked oo) \<rparr>)
        }
      | None \<Rightarrow> Some (hc\<lparr> spot := (spot hc)[i := baseNet] \<rparr>))"

definition evalPerps ::
  "EntropyGroup \<Rightarrow> EntropyCache \<Rightarrow> EntropyAccount \<Rightarrow> nat \<Rightarrow> I80F48 \<Rightarrow> HealthComponents
     \<Rightarrow> HealthComponents option" where
  "evalPerps g c acct i pr hc = do {
     pm \<leftarrow> at (perpMarkets g) i;
     if perpMarket pm \<noteq> zeroKey then do {
       cache \<leftarrow> at (perpMarketCache c) i;
       perpAccount \<leftarrow> at (perpAccounts acct) i;
       let takerQuote' = fromI64 (takerQuote perpAccount * quoteLotSize pm);
       let basePos =
         fromI64 ((basePosition perpAccount + takerBase perpAccount) * baseLotSize pm);
       let bidsQuantity' = fromI64 (bidsQuantity perpAccount * baseLotSize pm);
       let asksQuantity' = fromI64 (asksQuantity perpAccount * baseLotSize pm);
       let bidsBaseNet = I80F48_add basePos bidsQuantity';
       let asksBaseNet = I80F48_sub basePos asksQuantity';
       Some (if I80F48_gt (I80F48_abs bidsBaseNet) (I80F48_abs asksBaseNet)
             then hc\<lparr> perps := (perps hc)[i := bidsBaseNet],
                      quote := I80F48_add (quote hc)
                         (I80F48_sub (I80F48_add (getQuotePosition perpAccount cache) takerQuote')
                                     (I80F48_mul bidsQuantity' pr)) \<rparr>
             else hc\<lparr> perps := (perps hc)[i := asksBaseNet],
                      quote := I80F48_add (quote hc)
                         (I80F48_add (I80F48_add (getQuotePosition perpAccount cache) takerQuote')
                                     (I80F48_mul asksQuantity' pr)) \<rparr>)
     } else Some (hc\<lparr> perps := (perps hc)[i := ZERO_I80F48] \<rparr>)
   }"

definition healthComponentsBody ::
  "EntropyGroup \<Rightarrow> EntropyCache \<Rightarrow> EntropyAccount \<Rightarrow> nat \<Rightarrow> HealthComponents
     \<Rightarrow> HealthComponents option" where
  "healthComponentsBody g c acct i hc = do {
     bankCache \<leftarrow> at (rootBankCache c) i;
     pc \<leftarrow> at (priceCache c) i;
     baseNet \<leftarrow> getNet acct bankCache i;
     hc' \<leftarrow> evalSpot acct i (price pc) baseNet hc;
     evalPerps g c acct i (price pc) hc'
   }"

definition getHealthComponents ::
  "EntropyGroup \<Rightarrow> EntropyCache \<Rightarrow> EntropyAccount \<Rightarrow> HealthComponents option" where
  "getHealthComponents g c acct = do {
     quoteBank \<leftarrow> at (rootBankCache c) QUOTE_INDEX;
     q \<leftarrow> getNet acct quoteBank QUOTE_INDEX;
     forLoop 0 (numOracles g) (healthComponentsBody g c acct)
       \<lparr> spot = replicate (numOracles g) ZERO_I80F48,
         perps = replicate (numOracles g) ZERO_I80F48,
         quote = q \<rparr>
   }"

section \<open>Weighted aggregator\<close>

definition healthFromComponentsBody ::
  "EntropyGroup \<Rightarrow> EntropyCache \<Rightarrow> I80F48 list \<Rightarrow> I80F48 list \<Rightarrow> HealthType \<Rightarrow> nat
     \<Rightarrow> I80F48 \<Rightarrow> I80F48 option" where
  "healthFromComponentsBody g c spot' perps' healthType i health = do {
     w \<leftarrow> getWeights g i healthType;
     pc \<leftarrow> at (priceCache c) i;
     s \<leftarrow> at spot' i;
     let spotHealth = I80F48_mul (I80F48_mul s (price pc))
                        (if isPos s then spotAssetWeight w else spotLiabWeight w);
     p \<leftarrow> at perps' i;
     let perpHealth = I80F48_mul (I80F48_mul p (price pc))
                        (if isPos p then perpAssetWeight w else perpLiabWeight w);
     Some (I80F48_add (I80F48_add health spotHealth) perpHealth)
   }"

definition getHealthFromComponents ::
  "EntropyGroup \<Rightarrow> EntropyCache \<Rightarrow> I80F48 list \<Rightarrow> I80F48 list \<Rightarrow> I80F48 \<Rightarrow> HealthType
     \<Rightarrow> I80F48 option" where
  "getHealthFromComponents g c spot' perps' quote' healthType =
     forLoop 0 (numOracles g) (healthFromComponentsBody g c spot' perps' healthType) quote'"

record AssetsLiabs =
  assets :: I80F48
  liabs :: I80F48

definition weightedAssetsLiabsBody ::
  "EntropyGroup \<Rightarrow> EntropyCache \<Rightarrow> I80F48 list \<Rightarrow> I80F48 list \<Rightarrow> HealthType \<Rightarrow> nat
     \<Rightarrow> AssetsLiabs \<Rightarrow> AssetsLiabs option" where
  "weightedAssetsLiabsBody g c spot' perps' healthType i al = do {
     w \<leftarrow> getWeights g i healthType;
     pc \<leftarrow> at (priceCache c) i;
     s \<leftarrow> at spot' i;
     let al' =
       (if isPos s
        then al\<lparr> assets := I80F48_add (I80F48_mul (I80F48_mul s (price pc)) (spotAssetWeight w))
                                      (assets al) \<rparr>
        else al\<lparr> liabs := I80F48_add
                   (I80F48_mul (I80F48_mul (I80F48_neg s) (price pc)) (spotLiabWeight w))
                   (liabs al) \<rparr>);
     p \<leftarrow> at perps' i;
     Some (if isPos p
           then al'\<lparr> assets := I80F48_add
                   (I80F48_mul (I80F48_mul p (price pc)) (perpAssetWeight w)) (assets al') \<rparr>
           else al'\<lparr> liabs := I80F48_add
                   (I80F48_mul (I80F48_mul (I80F48_neg p) (price pc)) (perpLiabWeight w))
                   (liabs al') \<rparr>)
   }"

text \<open>
  \<open>getWeightedAssetsLiabsVals\<close>, called with a health type (its only caller,
  \<open>getHealthRatio\<close>, always passes one).
\<close>

definition getWeightedAssetsLiabsVals ::
  "EntropyGroup \<Rightarrow> EntropyCache \<Rightarrow> I80F48 list \<Rightarrow> I80F48 list \<Rightarrow> I80F48 \<Rightarrow> HealthType
     \<Rightarrow> AssetsLiabs option" where
  "getWeightedAssetsLiabsVals g c spot' perps' quote' healthType =
     forLoop 0 (numOracles g) (weightedAssetsLiabsBody g c spot' perps' healthType)
       (if isPos quote'
        then \<lparr> assets = I80F48_add ZERO_I80F48 quote', liabs = ZERO_I80F48 \<rparr>
        else \<lparr> assets = ZERO_I80F48, liabs = I80F48_add ZERO_I80F48 (I80F48_neg quote') \<rparr>)"

section \<open>Solvency evaluator\<close>

definition getHealth ::
  "EntropyGroup \<Rightarrow> EntropyCache \<Rightarrow> EntropyAccount \<Rightarrow> HealthType \<Rightarrow> I80F48 option" where
  "getHealth g c acct healthType = do {
     hc \<leftarrow> getHealthComponents g c acct;
     getHealthFromComponents g c (spot hc) (perps hc) (quote hc) healthType
   }"

definition getHealthRatio ::
  "EntropyGroup \<Rightarrow> EntropyCache \<Rightarrow> EntropyAccount \<Rightarrow> HealthType \<Rightarrow> I80F48 option" where
  "getHealthRatio g c acct healthType = do {
     hc \<leftarrow> getHealthComponents g c acct;
     al \<leftarrow> getWeightedAssetsLiabsVals g c (spot hc) (perps hc) (quote hc) healthType;
     if I80F48_gt (liabs al) ZERO_I80F48
     then do {
       r \<leftarrow> I80F48_div (assets al) (liabs al);
       Some (I80F48_mul (I80F48_sub r ONE_I80F48) (fromNumber 100))
     }
     else Some (fromNumber 100)
   }"

text \<open>
  \<open>(beingLiquidated && health(Init).isNeg()) || health(Maint).isNeg()\<close>, with
  JavaScript's short-circuit evaluation.
\<close>

definition isLiquidatable :: "EntropyGroup \<Rightarrow> EntropyCache \<Rightarrow> EntropyAccount \<Rightarrow> bool option" where
  "isLiquidatable g c acct =
     (if beingLiquidated acct
      then do {
        hi \<leftarrow> getHealth g c acct Init;
        if isNeg hi then Some True
        else do { hm \<leftarrow> getHealth g c acct Maint; Some (isNeg hm) }
      }
      else do { hm \<leftarrow> getHealth g c acct Maint; Some (isNeg hm) })"








section \<open>Well-formed inputs\<close>

text \<open>
  The inputs on which no array read of the functions above is out of range: the
  per-market arrays cover the oracle range, the per-token arrays cover it and the quote
  index, and a market with open orders in the margin basket has a price other than zero
  (the resolver divides by it).
\<close>

definition wellFormed :: "EntropyGroup \<Rightarrow> EntropyCache \<Rightarrow> EntropyAccount \<Rightarrow> bool" where
  "wellFormed g c acct \<longleftrightarrow>
     numOracles g \<le> QUOTE_INDEX \<and>
     numOracles g \<le> length (spotMarkets g) \<and>
     numOracles g \<le> length (perpMarkets g) \<and>
     QUOTE_INDEX < length (tokens g) \<and>
     numOracles g \<le> length (priceCache c) \<and>
     numOracles g \<le> length (perpMarketCache c) \<and>
     QUOTE_INDEX < length (rootBankCache c) \<and>
     QUOTE_INDEX < length (deposits acct) \<and>
     QUOTE_INDEX < length (borrows acct) \<and>
     numOracles g \<le> length (perpAccounts acct) \<and>
     (\<forall>i < numOracles g. openOrdersInBasket acct i \<noteq> None \<longrightarrow> price (priceCache c ! i) \<noteq> 0)"

section \<open>The resolved components, in closed form\<close>

text \<open>
  The quantities of the spec's section 4.2, written per market. \<open>netOf\<close> is the net
  balance of a token, \<open>spotBidsCase\<close> and \<open>spotAsksCase\<close> the base totals if every
  resting bid, or every resting ask, fills.
\<close>

definition priceOf :: "EntropyCache \<Rightarrow> nat \<Rightarrow> I80F48" where
  "priceOf c i = price (priceCache c ! i)"

definition netOf :: "EntropyCache \<Rightarrow> EntropyAccount \<Rightarrow> nat \<Rightarrow> I80F48" where
  "netOf c acct k =
     I80F48_mul (deposits acct ! k) (depositIndex (rootBankCache c ! k))
       - I80F48_mul (borrows acct ! k) (borrowIndex (rootBankCache c ! k))"

definition spotBidsCase :: "EntropyCache \<Rightarrow> EntropyAccount \<Rightarrow> nat \<Rightarrow> OpenOrders \<Rightarrow> I80F48" where
  "spotBidsCase c acct i oo =
     netOf c acct i + I80F48_quot (quoteLocked oo) (priceOf c i) + baseFree oo + baseLocked oo"

definition spotAsksCase :: "EntropyCache \<Rightarrow> EntropyAccount \<Rightarrow> nat \<Rightarrow> OpenOrders \<Rightarrow> I80F48" where
  "spotAsksCase c acct i oo = netOf c acct i + baseFree oo"

definition worstSpot :: "EntropyCache \<Rightarrow> EntropyAccount \<Rightarrow> nat \<Rightarrow> I80F48" where
  "worstSpot c acct i =
     (case openOrdersInBasket acct i of
        None \<Rightarrow> netOf c acct i
      | Some oo \<Rightarrow>
          if \<bar>spotBidsCase c acct i oo\<bar> > \<bar>spotAsksCase c acct i oo\<bar>
          then spotBidsCase c acct i oo else spotAsksCase c acct i oo)"

definition spotQuoteAdjust :: "EntropyCache \<Rightarrow> EntropyAccount \<Rightarrow> nat \<Rightarrow> I80F48" where
  "spotQuoteAdjust c acct i =
     (case openOrdersInBasket acct i of
        None \<Rightarrow> 0
      | Some oo \<Rightarrow>
          if \<bar>spotBidsCase c acct i oo\<bar> > \<bar>spotAsksCase c acct i oo\<bar>
          then quoteFree oo
          else I80F48_mul (baseLocked oo) (priceOf c i) + quoteFree oo + quoteLocked oo)"

definition perpRegistered :: "EntropyGroup \<Rightarrow> nat \<Rightarrow> bool" where
  "perpRegistered g i \<longleftrightarrow> perpMarket (perpMarkets g ! i) \<noteq> zeroKey"

definition perpBidsCase :: "EntropyGroup \<Rightarrow> EntropyAccount \<Rightarrow> nat \<Rightarrow> I80F48" where
  "perpBidsCase g acct i =
     fromI64 ((basePosition (perpAccounts acct ! i) + takerBase (perpAccounts acct ! i))
                * baseLotSize (perpMarkets g ! i))
       + fromI64 (bidsQuantity (perpAccounts acct ! i) * baseLotSize (perpMarkets g ! i))"

definition perpAsksCase :: "EntropyGroup \<Rightarrow> EntropyAccount \<Rightarrow> nat \<Rightarrow> I80F48" where
  "perpAsksCase g acct i =
     fromI64 ((basePosition (perpAccounts acct ! i) + takerBase (perpAccounts acct ! i))
                * baseLotSize (perpMarkets g ! i))
       - fromI64 (asksQuantity (perpAccounts acct ! i) * baseLotSize (perpMarkets g ! i))"

definition worstPerp :: "EntropyGroup \<Rightarrow> EntropyAccount \<Rightarrow> nat \<Rightarrow> I80F48" where
  "worstPerp g acct i =
     (if perpRegistered g i
      then (if \<bar>perpBidsCase g acct i\<bar> > \<bar>perpAsksCase g acct i\<bar>
            then perpBidsCase g acct i else perpAsksCase g acct i)
      else 0)"

definition perpQuoteAdjust :: "EntropyGroup \<Rightarrow> EntropyCache \<Rightarrow> EntropyAccount \<Rightarrow> nat \<Rightarrow> I80F48" where
  "perpQuoteAdjust g c acct i =
     (if perpRegistered g i
      then (if \<bar>perpBidsCase g acct i\<bar> > \<bar>perpAsksCase g acct i\<bar>
            then fundingAdjustedQuotePosition (perpAccounts acct ! i)
                   + fromI64 (takerQuote (perpAccounts acct ! i) * quoteLotSize (perpMarkets g ! i))
                   - I80F48_mul
                       (fromI64 (bidsQuantity (perpAccounts acct ! i) * baseLotSize (perpMarkets g ! i)))
                       (priceOf c i)
            else fundingAdjustedQuotePosition (perpAccounts acct ! i)
                   + fromI64 (takerQuote (perpAccounts acct ! i) * quoteLotSize (perpMarkets g ! i))
                   + I80F48_mul
                       (fromI64 (asksQuantity (perpAccounts acct ! i) * baseLotSize (perpMarkets g ! i)))
                       (priceOf c i))
      else 0)"

definition resolvedQuote :: "EntropyGroup \<Rightarrow> EntropyCache \<Rightarrow> EntropyAccount \<Rightarrow> I80F48" where
  "resolvedQuote g c acct =
     netOf c acct QUOTE_INDEX
       + (\<Sum>i < numOracles g. spotQuoteAdjust c acct i + perpQuoteAdjust g c acct i)"

definition resolved :: "EntropyGroup \<Rightarrow> EntropyCache \<Rightarrow> EntropyAccount \<Rightarrow> HealthComponents" where
  "resolved g c acct =
     \<lparr> spot = map (worstSpot c acct) [0 ..< numOracles g],
       perps = map (worstPerp g acct) [0 ..< numOracles g],
       quote = resolvedQuote g c acct \<rparr>"

text \<open>One pass of the resolver's loop, as a total function on the components.\<close>

definition resolveStep ::
  "EntropyGroup \<Rightarrow> EntropyCache \<Rightarrow> EntropyAccount \<Rightarrow> nat \<Rightarrow> HealthComponents \<Rightarrow> HealthComponents" where
  "resolveStep g c acct i hc =
     hc\<lparr> spot := (spot hc)[i := worstSpot c acct i],
         perps := (perps hc)[i := worstPerp g acct i],
         quote := quote hc + spotQuoteAdjust c acct i + perpQuoteAdjust g c acct i \<rparr>"

section \<open>The aggregates, in closed form\<close>

text \<open>
  The weights of market \<open>i\<close> for a health type, the weighted value of one signed
  quantity (asset weight when it is positive, liability weight otherwise), the
  contribution of one market to health, and health as the spec's section 4.3 has it:
  \<open>quote\<close> plus the contributions of all markets.
\<close>

definition weightsOf :: "EntropyGroup \<Rightarrow> nat \<Rightarrow> HealthType \<Rightarrow> Weights" where
  "weightsOf g i healthType =
     (case healthType of
        Maint \<Rightarrow> \<lparr> spotAssetWeight = maintAssetWeight (spotMarkets g ! i),
                   spotLiabWeight = maintLiabWeight (spotMarkets g ! i),
                   perpAssetWeight = maintAssetWeight (perpMarkets g ! i),
                   perpLiabWeight = maintLiabWeight (perpMarkets g ! i) \<rparr>
      | Init \<Rightarrow> \<lparr> spotAssetWeight = initAssetWeight (spotMarkets g ! i),
                  spotLiabWeight = initLiabWeight (spotMarkets g ! i),
                  perpAssetWeight = initAssetWeight (perpMarkets g ! i),
                  perpLiabWeight = initLiabWeight (perpMarkets g ! i) \<rparr>)"

definition weightedValue :: "I80F48 \<Rightarrow> I80F48 \<Rightarrow> I80F48 \<Rightarrow> I80F48 \<Rightarrow> I80F48" where
  "weightedValue x pr assetWeight liabWeight =
     I80F48_mul (I80F48_mul x pr) (if x > 0 then assetWeight else liabWeight)"

definition marketHealth ::
  "EntropyGroup \<Rightarrow> EntropyCache \<Rightarrow> I80F48 list \<Rightarrow> I80F48 list \<Rightarrow> HealthType \<Rightarrow> nat \<Rightarrow> I80F48" where
  "marketHealth g c spot' perps' healthType i =
     weightedValue (spot' ! i) (priceOf c i)
        (spotAssetWeight (weightsOf g i healthType)) (spotLiabWeight (weightsOf g i healthType))
     + weightedValue (perps' ! i) (priceOf c i)
        (perpAssetWeight (weightsOf g i healthType)) (perpLiabWeight (weightsOf g i healthType))"

definition healthOf ::
  "EntropyGroup \<Rightarrow> EntropyCache \<Rightarrow> I80F48 list \<Rightarrow> I80F48 list \<Rightarrow> I80F48 \<Rightarrow> HealthType \<Rightarrow> I80F48" where
  "healthOf g c spot' perps' quote' healthType =
     quote' + (\<Sum>i < numOracles g. marketHealth g c spot' perps' healthType i)"

text \<open>The registry, the price cache and the two component arrays cover the oracle range.\<close>

definition coversOracles ::
  "EntropyGroup \<Rightarrow> EntropyCache \<Rightarrow> I80F48 list \<Rightarrow> I80F48 list \<Rightarrow> bool" where
  "coversOracles g c spot' perps' \<longleftrightarrow>
     numOracles g \<le> length (spotMarkets g) \<and> numOracles g \<le> length (perpMarkets g) \<and>
     numOracles g \<le> length (priceCache c) \<and>
     numOracles g \<le> length spot' \<and> numOracles g \<le> length perps'"

text \<open>
  The split of the same contributions into assets and liabilities: a positive quantity
  adds its weighted value to the assets, any other one adds the weighted value of its
  negation to the liabilities.
\<close>

definition assetPart :: "I80F48 \<Rightarrow> I80F48 \<Rightarrow> I80F48 \<Rightarrow> I80F48" where
  "assetPart x pr w = (if x > 0 then I80F48_mul (I80F48_mul x pr) w else 0)"

definition liabPart :: "I80F48 \<Rightarrow> I80F48 \<Rightarrow> I80F48 \<Rightarrow> I80F48" where
  "liabPart x pr w = (if x > 0 then 0 else I80F48_mul (I80F48_mul (- x) pr) w)"

definition marketAssets ::
  "EntropyGroup \<Rightarrow> EntropyCache \<Rightarrow> I80F48 list \<Rightarrow> I80F48 list \<Rightarrow> HealthType \<Rightarrow> nat \<Rightarrow> I80F48" where
  "marketAssets g c spot' perps' healthType i =
     assetPart (spot' ! i) (priceOf c i) (spotAssetWeight (weightsOf g i healthType))
     + assetPart (perps' ! i) (priceOf c i) (perpAssetWeight (weightsOf g i healthType))"

definition marketLiabs ::
  "EntropyGroup \<Rightarrow> EntropyCache \<Rightarrow> I80F48 list \<Rightarrow> I80F48 list \<Rightarrow> HealthType \<Rightarrow> nat \<Rightarrow> I80F48" where
  "marketLiabs g c spot' perps' healthType i =
     liabPart (spot' ! i) (priceOf c i) (spotLiabWeight (weightsOf g i healthType))
     + liabPart (perps' ! i) (priceOf c i) (perpLiabWeight (weightsOf g i healthType))"

definition assetsLiabsOf ::
  "EntropyGroup \<Rightarrow> EntropyCache \<Rightarrow> I80F48 list \<Rightarrow> I80F48 list \<Rightarrow> I80F48 \<Rightarrow> HealthType
     \<Rightarrow> AssetsLiabs" where
  "assetsLiabsOf g c spot' perps' quote' healthType =
     \<lparr> assets = (if quote' > 0 then quote' else 0)
                  + (\<Sum>i < numOracles g. marketAssets g c spot' perps' healthType i),
       liabs = (if quote' > 0 then 0 else - quote')
                  + (\<Sum>i < numOracles g. marketLiabs g c spot' perps' healthType i) \<rparr>"

text \<open>Markets whose price and four weights of a health type are not negative.\<close>

definition nonnegativeMarkets :: "EntropyGroup \<Rightarrow> EntropyCache \<Rightarrow> HealthType \<Rightarrow> bool" where
  "nonnegativeMarkets g c healthType \<longleftrightarrow>
     (\<forall>i < numOracles g.
        0 \<le> priceOf c i \<and>
        0 \<le> spotAssetWeight (weightsOf g i healthType) \<and>
        0 \<le> spotLiabWeight (weightsOf g i healthType) \<and>
        0 \<le> perpAssetWeight (weightsOf g i healthType) \<and>
        0 \<le> perpLiabWeight (weightsOf g i healthType))"

text \<open>The all-zero account: every deposit, borrow, open-orders amount and perp position is zero.\<close>

definition zeroPerpAccount :: PerpAccount where
  "zeroPerpAccount =
     \<lparr> basePosition = 0, takerBase = 0, takerQuote = 0, bidsQuantity = 0, asksQuantity = 0,
       fundingAdjustedQuotePosition = 0 \<rparr>"

definition zeroOpenOrders :: OpenOrders where
  "zeroOpenOrders = \<lparr> quoteFree = 0, quoteLocked = 0, baseFree = 0, baseLocked = 0 \<rparr>"

definition zeroAccount :: "EntropyAccount \<Rightarrow> bool" where
  "zeroAccount acct \<longleftrightarrow>
     (\<forall>d \<in> set (deposits acct). d = 0) \<and>
     (\<forall>b \<in> set (borrows acct). b = 0) \<and>
     (\<forall>oo \<in> set (spotOpenOrdersAccounts acct). oo = None \<or> oo = Some zeroOpenOrders) \<and>
     (\<forall>pa \<in> set (perpAccounts acct). pa = zeroPerpAccount)"





text \<open>The account with the borrow balance of token \<open>k\<close> replaced by \<open>b'\<close>.\<close>

definition withBorrow :: "EntropyAccount \<Rightarrow> nat \<Rightarrow> I80F48 \<Rightarrow> EntropyAccount" where
  "withBorrow acct k b' = acct\<lparr> borrows := (borrows acct)[k := b'] \<rparr>"


section \<open>Example snapshots\<close>

text \<open>
  The snapshot of the spec's worst-case order selection example: one spot market with
  price 10 and no perp market, open orders with 500 of quote locked, a quote deposit of
  1000 at deposit index 1. The spot asset weight \<open>w\<close> is left open.
\<close>

definition orderGroup :: "I80F48 \<Rightarrow> EntropyGroup" where
  "orderGroup w =
     \<lparr> numOracles = 1,
       tokens = replicate 16 \<lparr> decimals = 6 \<rparr>,
       spotMarkets = [\<lparr> maintAssetWeight = w, initAssetWeight = w,
                        maintLiabWeight = ONE_I80F48, initLiabWeight = ONE_I80F48,
                        spotMarket = 1 \<rparr>],
       perpMarkets = [\<lparr> maintAssetWeight = ONE_I80F48, initAssetWeight = ONE_I80F48,
                        maintLiabWeight = ONE_I80F48, initLiabWeight = ONE_I80F48,
                        perpMarket = zeroKey, baseLotSize = 1, quoteLotSize = 1 \<rparr>] \<rparr>"

definition orderCache :: EntropyCache where
  "orderCache =
     \<lparr> priceCache = [\<lparr> price = fromNumber 10 \<rparr>],
       rootBankCache = replicate 16 \<lparr> depositIndex = ONE_I80F48, borrowIndex = ONE_I80F48 \<rparr>,
       perpMarketCache = [\<lparr> longFunding = 0, shortFunding = 0 \<rparr>] \<rparr>"

definition orderAccount :: EntropyAccount where
  "orderAccount =
     \<lparr> inMarginBasket = [True],
       deposits = replicate 15 0 @ [fromNumber 1000],
       borrows = replicate 16 0,
       spotOpenOrdersAccounts =
         [Some \<lparr> quoteFree = 0, quoteLocked = fromNumber 500, baseFree = 0, baseLocked = 0 \<rparr>],
       perpAccounts = [zeroPerpAccount],
       beingLiquidated = False \<rparr>"

text \<open>
  A snapshot with one registered perp market (base lot 10, quote lot 100), a position of
  3 lots, 1 lot of pending taker base, resting bids of 5 lots and asks of 2 lots.
\<close>

definition perpGroup :: EntropyGroup where
  "perpGroup =
     \<lparr> numOracles = 1,
       tokens = replicate 16 \<lparr> decimals = 6 \<rparr>,
       spotMarkets = [\<lparr> maintAssetWeight = ONE_I80F48, initAssetWeight = ONE_I80F48,
                        maintLiabWeight = ONE_I80F48, initLiabWeight = ONE_I80F48,
                        spotMarket = 1 \<rparr>],
       perpMarkets = [\<lparr> maintAssetWeight = ONE_I80F48, initAssetWeight = ONE_I80F48,
                        maintLiabWeight = ONE_I80F48, initLiabWeight = ONE_I80F48,
                        perpMarket = 2, baseLotSize = 10, quoteLotSize = 100 \<rparr>] \<rparr>"

definition perpAccountEx :: EntropyAccount where
  "perpAccountEx =
     \<lparr> inMarginBasket = [False],
       deposits = replicate 16 0,
       borrows = replicate 16 0,
       spotOpenOrdersAccounts = [None],
       perpAccounts = [\<lparr> basePosition = 3, takerBase = 1, takerQuote = - 2, bidsQuantity = 5,
                          asksQuantity = 2, fundingAdjustedQuotePosition = fromNumber 7 \<rparr>],
       beingLiquidated = False \<rparr>"

text \<open>
  A snapshot with one spot market (price 10, Init weights 0.5 and 1.25, Maint weights
  0.75 and 1.125), open orders with 210 of quote locked, and a borrow \<open>b\<close> of the base
  token at borrow index 1.
\<close>

definition flipGroup :: EntropyGroup where
  "flipGroup =
     \<lparr> numOracles = 1,
       tokens = replicate 16 \<lparr> decimals = 6 \<rparr>,
       spotMarkets = [\<lparr> maintAssetWeight = 3 * 2 ^ 46, initAssetWeight = 2 ^ 47,
                        maintLiabWeight = 9 * 2 ^ 45, initLiabWeight = 5 * 2 ^ 46,
                        spotMarket = 1 \<rparr>],
       perpMarkets = [\<lparr> maintAssetWeight = ONE_I80F48, initAssetWeight = ONE_I80F48,
                        maintLiabWeight = ONE_I80F48, initLiabWeight = ONE_I80F48,
                        perpMarket = zeroKey, baseLotSize = 1, quoteLotSize = 1 \<rparr>] \<rparr>"

definition flipAccount :: "I80F48 \<Rightarrow> EntropyAccount" where
  "flipAccount b =
     \<lparr> inMarginBasket = [True],
       deposits = replicate 16 0,
       borrows = b # replicate 15 0,
       spotOpenOrdersAccounts =
         [Some \<lparr> quoteFree = 0, quoteLocked = fromNumber 210, baseFree = 0, baseLocked = 0 \<rparr>],
       perpAccounts = [zeroPerpAccount],
       beingLiquidated = False \<rparr>"

text \<open>An all-zero account with an open-orders record in the margin basket.\<close>

definition zeroSnapshotAccount :: EntropyAccount where
  "zeroSnapshotAccount =
     \<lparr> inMarginBasket = [True],
       deposits = replicate 16 0,
       borrows = replicate 16 0,
       spotOpenOrdersAccounts = [Some zeroOpenOrders],
       perpAccounts = [zeroPerpAccount],
       beingLiquidated = False \<rparr>"

text \<open>
  The account of the order selection example with the quote deposit replaced by a quote
  borrow of 1000.
\<close>

definition debtAccount :: EntropyAccount where
  "debtAccount =
     \<lparr> inMarginBasket = [True],
       deposits = replicate 16 0,
       borrows = replicate 15 0 @ [fromNumber 1000],
       spotOpenOrdersAccounts =
         [Some \<lparr> quoteFree = 0, quoteLocked = fromNumber 500, baseFree = 0, baseLocked = 0 \<rparr>],
       perpAccounts = [zeroPerpAccount],
       beingLiquidated = False \<rparr>"

text \<open>
  An account with a borrow \<open>b\<close> of the base token of market 0 and nothing else, and a
  cache in which that market has price 0.25.
\<close>

definition plainAccount :: "I80F48 \<Rightarrow> EntropyAccount" where
  "plainAccount b =
     \<lparr> inMarginBasket = [False],
       deposits = replicate 16 0,
       borrows = b # replicate 15 0,
       spotOpenOrdersAccounts = [None],
       perpAccounts = [zeroPerpAccount],
       beingLiquidated = False \<rparr>"

definition quarterPriceCache :: EntropyCache where
  "quarterPriceCache =
     \<lparr> priceCache = [\<lparr> price = 2 ^ 46 \<rparr>],
       rootBankCache = replicate 16 \<lparr> depositIndex = ONE_I80F48, borrowIndex = ONE_I80F48 \<rparr>,
       perpMarketCache = [\<lparr> longFunding = 0, shortFunding = 0 \<rparr>] \<rparr>"


section \<open>Loops and array reads\<close>

lemma forLoop_fold:
  assumes "\<And>j s. i \<le> j \<Longrightarrow> j < n \<Longrightarrow> body j s = Some (f j s)"
  shows "forLoop i n body st = Some (fold f [i..<n] st)"
  using assms
proof (induction "n - i" arbitrary: i st)
  case 0
  then show ?case by (simp add: forLoop.simps)
next
  case (Suc k)
  then have lt: "i < n" by simp
  have step: "body i st = Some (f i st)" using Suc.prems lt by simp
  have rest: "forLoop (Suc i) n body (f i st) = Some (fold f [Suc i..<n] (f i st))"
    using Suc.hyps(1) [of "Suc i" "f i st"] Suc.hyps(2) Suc.prems by simp
  show ?case
    using lt step rest by (subst forLoop.simps) (simp add: upt_conv_Cons)
qed

lemma at_in [simp]: "i < length xs \<Longrightarrow> at xs i = Some (xs ! i)"
  by (simp add: at_def)

lemma at_out [simp]: "\<not> i < length xs \<Longrightarrow> at xs i = None"
  by (simp add: at_def)

section \<open>The resolver computes the closed form\<close>

lemma getNet_wf:
  "k < length (deposits acct) \<Longrightarrow> k < length (borrows acct) \<Longrightarrow>
   getNet acct (rootBankCache c ! k) k = Some (netOf c acct k)"
  by (simp add: getNet_def netOf_def I80F48_sub_def)

lemma evalSpot_closed:
  assumes "openOrdersInBasket acct i \<noteq> None \<longrightarrow> priceOf c i \<noteq> 0"
  shows "evalSpot acct i (priceOf c i) (netOf c acct i) hc =
         Some (hc\<lparr> spot := (spot hc)[i := worstSpot c acct i],
                   quote := quote hc + spotQuoteAdjust c acct i \<rparr>)"
  using assms
  by (cases "openOrdersInBasket acct i")
     (simp_all add: evalSpot_def worstSpot_def spotQuoteAdjust_def spotBidsCase_def
        spotAsksCase_def I80F48_div_def I80F48_add_def I80F48_gt_def I80F48_abs_def Let_def)

lemma evalPerps_closed:
  assumes "i < length (perpMarkets g)" "i < length (perpMarketCache c)"
    "i < length (perpAccounts acct)"
  shows "evalPerps g c acct i (priceOf c i) hc =
         Some (hc\<lparr> perps := (perps hc)[i := worstPerp g acct i],
                   quote := quote hc + perpQuoteAdjust g c acct i \<rparr>)"
  using assms
  by (simp add: evalPerps_def worstPerp_def perpQuoteAdjust_def perpBidsCase_def perpAsksCase_def
        perpRegistered_def getQuotePosition_def ZERO_I80F48_def
        I80F48_add_def I80F48_sub_def I80F48_gt_def I80F48_abs_def Let_def)

lemma healthComponentsBody_closed:
  assumes "wellFormed g c acct" "i < numOracles g"
  shows "healthComponentsBody g c acct i hc = Some (resolveStep g c acct i hc)"
proof -
  have len: "i < length (rootBankCache c)" "i < length (priceCache c)"
    "i < length (deposits acct)" "i < length (borrows acct)"
    "i < length (perpMarkets g)" "i < length (perpMarketCache c)" "i < length (perpAccounts acct)"
    using assms by (simp_all add: wellFormed_def)
  have pr: "openOrdersInBasket acct i \<noteq> None \<longrightarrow> priceOf c i \<noteq> 0"
    using assms by (simp add: wellFormed_def priceOf_def)
  show ?thesis
    using len getNet_wf [of i acct c] evalSpot_closed [OF pr]
      evalPerps_closed [OF len(5) len(6) len(7)]
    by (simp add: healthComponentsBody_def resolveStep_def priceOf_def [symmetric])
qed

lemma fold_resolveStep:
  "k \<le> length (spot hc) \<Longrightarrow> k \<le> length (perps hc) \<Longrightarrow>
   fold (resolveStep g c acct) [0..<k] hc =
     \<lparr> spot = map (worstSpot c acct) [0..<k] @ drop k (spot hc),
       perps = map (worstPerp g acct) [0..<k] @ drop k (perps hc),
       quote = quote hc + (\<Sum>i<k. spotQuoteAdjust c acct i + perpQuoteAdjust g c acct i) \<rparr>"
proof (induction k)
  case 0
  then show ?case by simp
next
  case (Suc k)
  have upd: "(xs @ drop k ys)[k := v] = xs @ [v] @ drop (Suc k) ys"
    if "length xs = k" "k < length ys" for xs ys :: "int list" and v
  proof -
    have "drop k ys = ys ! k # drop (Suc k) ys"
      using that by (simp add: Cons_nth_drop_Suc)
    then show ?thesis using that by (simp add: list_update_append)
  qed
  show ?case
    using Suc by (simp add: resolveStep_def upd)
qed

lemma getHealthComponents_resolved:
  assumes "wellFormed g c acct"
  shows "getHealthComponents g c acct = Some (resolved g c acct)"
proof -
  have q: "getNet acct (rootBankCache c ! QUOTE_INDEX) QUOTE_INDEX = Some (netOf c acct QUOTE_INDEX)"
    using assms by (intro getNet_wf) (simp_all add: wellFormed_def)
  have loop: "forLoop 0 (numOracles g) (healthComponentsBody g c acct) hc
        = Some (fold (resolveStep g c acct) [0..<numOracles g] hc)" for hc
    by (rule forLoop_fold) (simp add: healthComponentsBody_closed [OF assms])
  have bank: "QUOTE_INDEX < length (rootBankCache c)"
    using assms by (simp add: wellFormed_def)
  show ?thesis
    using q bank
    by (simp add: getHealthComponents_def loop fold_resolveStep resolved_def resolvedQuote_def)
qed

section \<open>Facts about the example snapshot\<close>

lemma tquot_mult_self: "b \<noteq> 0 \<Longrightarrow> tquot (a * b) b = a"
proof -
  assume b: "b \<noteq> 0"
  have d: "\<bar>a * b\<bar> div \<bar>b\<bar> = \<bar>a\<bar>" using b by (simp add: abs_mult)
  have s: "sgn b * sgn b = 1" using b by (simp add: sgn_if)
  have "tquot (a * b) b = sgn a * (sgn b * sgn b) * \<bar>a\<bar>"
    unfolding tquot_def d by (simp add: sgn_mult mult_ac)
  also have "\<dots> = a" unfolding s by (simp add: mult_sgn_abs)
  finally show ?thesis .
qed

lemma orderSnapshot_wellFormed: "wellFormed (orderGroup w) orderCache orderAccount"
  by (simp add: wellFormed_def orderGroup_def orderCache_def orderAccount_def QUOTE_INDEX_def
      fromNumber_def MULTIPLIER_def)

lemma order_openOrders: "openOrdersInBasket orderAccount 0 =
   Some \<lparr> quoteFree = 0, quoteLocked = fromNumber 500, baseFree = 0, baseLocked = 0 \<rparr>"
  by (simp add: openOrdersInBasket_def orderAccount_def)

lemma order_netOf_0: "netOf orderCache orderAccount 0 = 0"
  by (simp add: netOf_def orderCache_def orderAccount_def I80F48_mul_def tquot_def nth_append)

lemma order_price: "priceOf orderCache 0 = fromNumber 10"
  by (simp add: priceOf_def orderCache_def)

lemma order_bids: "spotBidsCase orderCache orderAccount 0
     \<lparr> quoteFree = 0, quoteLocked = fromNumber 500, baseFree = 0, baseLocked = 0 \<rparr> = fromNumber 50"
  by (simp add: spotBidsCase_def order_netOf_0 order_price I80F48_quot_def tquot_def
      fromNumber_def MULTIPLIER_def)

lemma order_asks: "spotAsksCase orderCache orderAccount 0
     \<lparr> quoteFree = 0, quoteLocked = fromNumber 500, baseFree = 0, baseLocked = 0 \<rparr> = 0"
  by (simp add: spotAsksCase_def order_netOf_0)

lemma order_worstSpot: "worstSpot orderCache orderAccount 0 = fromNumber 50"
  unfolding worstSpot_def order_openOrders option.case order_bids order_asks
  by (simp add: fromNumber_def MULTIPLIER_def)

section \<open>Open orders in the basket\<close>

lemma openOrdersInBasket_Some:
  "(openOrdersInBasket acct i = Some oo) =
     (i < length (inMarginBasket acct) \<and> inMarginBasket acct ! i \<and>
      i < length (spotOpenOrdersAccounts acct) \<and> spotOpenOrdersAccounts acct ! i = Some oo)"
  by (auto simp add: openOrdersInBasket_def at_def split: option.splits)

section \<open>The perp order example\<close>

lemma perpSnapshot_wellFormed: "wellFormed perpGroup orderCache perpAccountEx"
  by (simp add: wellFormed_def perpGroup_def orderCache_def perpAccountEx_def QUOTE_INDEX_def
      openOrdersInBasket_def)

lemma perp_bids: "perpBidsCase perpGroup perpAccountEx 0 = fromI64 90"
  by (simp add: perpBidsCase_def perpGroup_def perpAccountEx_def fromI64_def)

lemma perp_asks: "perpAsksCase perpGroup perpAccountEx 0 = fromI64 20"
  by (simp add: perpAsksCase_def perpGroup_def perpAccountEx_def fromI64_def)

lemma perp_registered: "perpMarket (perpMarkets perpGroup ! 0) \<noteq> zeroKey"
  by (simp add: perpGroup_def zeroKey_def)

lemma mul_fromI64: "I80F48_mul (fromI64 n) p = n * p"
  using tquot_mult_self [of MULTIPLIER "n * p"]
  by (simp add: I80F48_mul_def fromI64_def MULTIPLIER_def mult_ac)

section \<open>Health in closed form\<close>

lemma getWeights_wf:
  "i < length (spotMarkets g) \<Longrightarrow> i < length (perpMarkets g) \<Longrightarrow>
   getWeights g i healthType = Some (weightsOf g i healthType)"
  by (simp add: getWeights_def weightsOf_def)

lemma fold_add_sum:
  "fold (\<lambda>j (h::int). h + t j) [0..<n] q = q + (\<Sum>j<n. t j)"
  by (induction n) simp_all

lemma healthFromComponentsBody_closed:
  assumes "coversOracles g c spot' perps'" "i < numOracles g"
  shows "healthFromComponentsBody g c spot' perps' healthType i h =
         Some (h + marketHealth g c spot' perps' healthType i)"
  using assms getWeights_wf [of i g healthType]
  by (simp add: coversOracles_def healthFromComponentsBody_def marketHealth_def weightedValue_def
      priceOf_def isPos_def I80F48_gt_def ZERO_I80F48_def I80F48_add_def Let_def)

lemma getHealthFromComponents_closed:
  assumes "coversOracles g c spot' perps'"
  shows "getHealthFromComponents g c spot' perps' quote' healthType =
         Some (healthOf g c spot' perps' quote' healthType)"
proof -
  have "forLoop 0 (numOracles g) (healthFromComponentsBody g c spot' perps' healthType) quote'
      = Some (fold (\<lambda>j h. h + marketHealth g c spot' perps' healthType j) [0..<numOracles g] quote')"
    by (rule forLoop_fold) (simp add: healthFromComponentsBody_closed [OF assms])
  then show ?thesis
    by (simp add: getHealthFromComponents_def healthOf_def fold_add_sum)
qed

lemma resolved_covers:
  "wellFormed g c acct \<Longrightarrow> coversOracles g c (spot (resolved g c acct)) (perps (resolved g c acct))"
  by (simp add: wellFormed_def coversOracles_def resolved_def)

lemma getHealth_closed:
  assumes "wellFormed g c acct"
  shows "getHealth g c acct healthType =
         Some (healthOf g c (spot (resolved g c acct)) (perps (resolved g c acct))
                 (quote (resolved g c acct)) healthType)"
  using getHealthComponents_resolved [OF assms]
    getHealthFromComponents_closed [OF resolved_covers [OF assms]]
  by (simp add: getHealth_def)

text \<open>Definitions to unfold when a closed form is evaluated on a concrete snapshot.\<close>

lemmas eval_defs = resolved_def resolvedQuote_def worstSpot_def worstPerp_def spotQuoteAdjust_def
  perpQuoteAdjust_def perpRegistered_def spotBidsCase_def spotAsksCase_def netOf_def priceOf_def
  openOrdersInBasket_def healthOf_def marketHealth_def weightedValue_def weightsOf_def
  I80F48_mul_def I80F48_quot_def tquot_def fromNumber_def MULTIPLIER_def ONE_I80F48_def
  zeroKey_def QUOTE_INDEX_def zeroPerpAccount_def

lemma flip_wellFormed: "wellFormed flipGroup orderCache (flipAccount b)"
  by (simp add: wellFormed_def flipGroup_def orderCache_def flipAccount_def QUOTE_INDEX_def
      fromNumber_def MULTIPLIER_def)

lemma flip_health_100_Maint:
  "getHealth flipGroup orderCache (flipAccount (fromNumber 100)) Maint = Some (fromNumber (- 915))"
  unfolding getHealth_closed [OF flip_wellFormed]
  by (simp add: eval_defs flipGroup_def orderCache_def flipAccount_def)

section \<open>Assets, liabilities and the health ratio\<close>

lemma weightedAssetsLiabsBody_closed:
  assumes "coversOracles g c spot' perps'" "i < numOracles g"
  shows "weightedAssetsLiabsBody g c spot' perps' healthType i al =
         Some \<lparr> assets = assets al + marketAssets g c spot' perps' healthType i,
                liabs = liabs al + marketLiabs g c spot' perps' healthType i \<rparr>"
  using assms getWeights_wf [of i g healthType]
  by (simp add: coversOracles_def weightedAssetsLiabsBody_def marketAssets_def marketLiabs_def
      assetPart_def liabPart_def priceOf_def isPos_def I80F48_gt_def ZERO_I80F48_def
      I80F48_add_def I80F48_neg_def Let_def)

lemma fold_add_pair:
  "fold (\<lambda>j al. \<lparr> assets = assets al + a j, liabs = liabs al + l j \<rparr>) [0..<n] al0 =
     \<lparr> assets = assets al0 + (\<Sum>j<n. a j), liabs = liabs al0 + (\<Sum>j<n. l j) \<rparr>"
  by (induction n) simp_all

lemma getWeightedAssetsLiabsVals_closed:
  assumes "coversOracles g c spot' perps'"
  shows "getWeightedAssetsLiabsVals g c spot' perps' quote' healthType =
         Some (assetsLiabsOf g c spot' perps' quote' healthType)"
proof -
  have "forLoop 0 (numOracles g) (weightedAssetsLiabsBody g c spot' perps' healthType) al0
      = Some (fold (\<lambda>j al. \<lparr> assets = assets al + marketAssets g c spot' perps' healthType j,
                               liabs = liabs al + marketLiabs g c spot' perps' healthType j \<rparr>)
                [0..<numOracles g] al0)" for al0
    by (rule forLoop_fold) (simp add: weightedAssetsLiabsBody_closed [OF assms])
  then show ?thesis
    by (simp add: getWeightedAssetsLiabsVals_def assetsLiabsOf_def fold_add_pair isPos_def
        I80F48_gt_def ZERO_I80F48_def I80F48_add_def I80F48_neg_def)
qed

lemma tquot_nonneg: "0 \<le> a \<Longrightarrow> 0 \<le> b \<Longrightarrow> 0 \<le> tquot a b"
  by (simp add: tquot_def sgn_if pos_imp_zdiv_nonneg_iff)

lemma I80F48_mul_nonneg: "0 \<le> x \<Longrightarrow> 0 \<le> y \<Longrightarrow> 0 \<le> I80F48_mul x y"
  by (simp add: I80F48_mul_def MULTIPLIER_def tquot_nonneg)

lemma I80F48_quot_nonneg: "0 \<le> x \<Longrightarrow> 0 \<le> y \<Longrightarrow> 0 \<le> I80F48_quot x y"
  by (simp add: I80F48_quot_def MULTIPLIER_def tquot_nonneg)

lemma assetPart_nonneg: "0 \<le> pr \<Longrightarrow> 0 \<le> w \<Longrightarrow> 0 \<le> assetPart x pr w"
  by (simp add: assetPart_def I80F48_mul_nonneg)

lemma liabPart_nonneg: "0 \<le> pr \<Longrightarrow> 0 \<le> w \<Longrightarrow> 0 \<le> liabPart x pr w"
  by (simp add: liabPart_def I80F48_mul_nonneg)

lemma assetsLiabsOf_nonneg:
  assumes "nonnegativeMarkets g c healthType"
  shows "0 \<le> assets (assetsLiabsOf g c spot' perps' quote' healthType)"
    and "0 \<le> liabs (assetsLiabsOf g c spot' perps' quote' healthType)"
proof -
  have a: "0 \<le> marketAssets g c spot' perps' healthType i" if "i < numOracles g" for i
    using assms that by (simp add: nonnegativeMarkets_def marketAssets_def assetPart_nonneg)
  have l: "0 \<le> marketLiabs g c spot' perps' healthType i" if "i < numOracles g" for i
    using assms that by (simp add: nonnegativeMarkets_def marketLiabs_def liabPart_nonneg)
  have "0 \<le> (\<Sum>i < numOracles g. marketAssets g c spot' perps' healthType i)"
    by (rule sum_nonneg) (simp add: a)
  then show "0 \<le> assets (assetsLiabsOf g c spot' perps' quote' healthType)"
    by (simp add: assetsLiabsOf_def)
  have "0 \<le> (\<Sum>i < numOracles g. marketLiabs g c spot' perps' healthType i)"
    by (rule sum_nonneg) (simp add: l)
  then show "0 \<le> liabs (assetsLiabsOf g c spot' perps' quote' healthType)"
    by (simp add: assetsLiabsOf_def)
qed

lemma mul_fromNumber: "I80F48_mul x (fromNumber n) = x * n"
  using tquot_mult_self [of MULTIPLIER "x * n"]
  by (simp add: I80F48_mul_def fromNumber_def MULTIPLIER_def mult_ac)

section \<open>Health of the spot order example\<close>

lemma order_resolved:
  "resolved (orderGroup w) orderCache orderAccount =
     \<lparr> spot = [fromNumber 50], perps = [0], quote = fromNumber 1000 \<rparr>"
  by (simp add: eval_defs orderGroup_def orderCache_def orderAccount_def nth_append)

lemma order_healthOf:
  "healthOf (orderGroup w) orderCache [fromNumber 50] [0] (fromNumber 1000) healthType
     = fromNumber 1000 + 500 * w"
proof -
  have m1: "I80F48_mul (fromNumber 50) (fromNumber 10) = fromNumber 500"
    by (simp add: mul_fromNumber) (simp add: fromNumber_def)
  have m2: "I80F48_mul (fromNumber 500) w = 500 * w"
    using mul_fromNumber [of w 500] by (simp add: I80F48_mul_def mult_ac)
  have z: "I80F48_mul 0 x = 0" for x by (simp add: I80F48_mul_def tquot_def)
  have p: "fromNumber 50 > 0" by (simp add: fromNumber_def MULTIPLIER_def)
  have pr: "priceOf orderCache 0 = fromNumber 10" by (rule order_price)
  show ?thesis
    by (cases healthType)
       (simp_all add: healthOf_def marketHealth_def weightedValue_def weightsOf_def pr p m1 m2 z
          orderGroup_def)
qed

lemma order_health_never_1450: "fromNumber 1000 + 500 * w \<noteq> fromNumber 1450"
proof
  assume "fromNumber 1000 + 500 * w = fromNumber 1450"
  then have "10 * w = 2533274790395904"
    by (simp add: fromNumber_def MULTIPLIER_def)
  then show False by presburger
qed

section \<open>Accounts with nothing in them\<close>

lemma I80F48_mul_zero [simp]: "I80F48_mul 0 x = 0" "I80F48_mul x 0 = 0"
  by (simp_all add: I80F48_mul_def tquot_def)

lemma I80F48_quot_zero [simp]: "I80F48_quot 0 x = 0"
  by (simp add: I80F48_quot_def tquot_def)

lemma zero_netOf:
  assumes "zeroAccount acct" "k < length (deposits acct)" "k < length (borrows acct)"
  shows "netOf c acct k = 0"
proof -
  have "deposits acct ! k = 0" "borrows acct ! k = 0"
    using assms nth_mem [of k "deposits acct"] nth_mem [of k "borrows acct"]
    by (simp_all add: zeroAccount_def)
  then show ?thesis by (simp add: netOf_def)
qed

lemma zero_openOrders:
  assumes "zeroAccount acct" "openOrdersInBasket acct i = Some oo"
  shows "oo = zeroOpenOrders"
proof -
  have "i < length (spotOpenOrdersAccounts acct) \<and> spotOpenOrdersAccounts acct ! i = Some oo"
    using assms(2)
    by (auto simp add: openOrdersInBasket_def at_def split: if_splits option.splits)
  then have "Some oo \<in> set (spotOpenOrdersAccounts acct)"
    by (metis nth_mem)
  then show ?thesis using assms(1) by (auto simp add: zeroAccount_def)
qed

lemma zero_spot:
  assumes "zeroAccount acct" "i < length (deposits acct)" "i < length (borrows acct)"
  shows "worstSpot c acct i = 0" and "spotQuoteAdjust c acct i = 0"
proof -
  have n: "netOf c acct i = 0" using assms by (rule zero_netOf)
  show "worstSpot c acct i = 0"
    using zero_openOrders [OF assms(1), of i] n
    by (cases "openOrdersInBasket acct i")
       (simp_all add: worstSpot_def spotBidsCase_def spotAsksCase_def zeroOpenOrders_def)
  show "spotQuoteAdjust c acct i = 0"
    using zero_openOrders [OF assms(1), of i] n
    by (cases "openOrdersInBasket acct i")
       (simp_all add: spotQuoteAdjust_def spotBidsCase_def spotAsksCase_def zeroOpenOrders_def)
qed

lemma zero_perp:
  assumes "zeroAccount acct" "i < length (perpAccounts acct)"
  shows "worstPerp g acct i = 0" and "perpQuoteAdjust g c acct i = 0"
proof -
  have pa: "perpAccounts acct ! i = zeroPerpAccount"
    using assms nth_mem [of i "perpAccounts acct"] by (simp add: zeroAccount_def)
  show "worstPerp g acct i = 0"
    by (simp add: worstPerp_def perpBidsCase_def perpAsksCase_def pa zeroPerpAccount_def fromI64_def)
  show "perpQuoteAdjust g c acct i = 0"
    by (simp add: perpQuoteAdjust_def perpBidsCase_def perpAsksCase_def pa zeroPerpAccount_def
        fromI64_def)
qed

lemma zero_resolved:
  assumes "wellFormed g c acct" "zeroAccount acct"
  shows "resolved g c acct =
     \<lparr> spot = replicate (numOracles g) 0, perps = replicate (numOracles g) 0, quote = 0 \<rparr>"
proof -
  have len: "i < length (deposits acct)" "i < length (borrows acct)" "i < length (perpAccounts acct)"
    if "i < numOracles g" for i
    using assms(1) that by (simp_all add: wellFormed_def)
  have q: "netOf c acct QUOTE_INDEX = 0"
    using assms by (intro zero_netOf) (simp_all add: wellFormed_def)
  have s: "map (worstSpot c acct) [0..<numOracles g] = replicate (numOracles g) 0"
    by (rule nth_equalityI) (simp_all add: zero_spot [OF assms(2)] len)
  have p: "map (worstPerp g acct) [0..<numOracles g] = replicate (numOracles g) 0"
    by (rule nth_equalityI) (simp_all add: zero_perp [OF assms(2)] len)
  have adj: "(\<Sum>i < numOracles g. spotQuoteAdjust c acct i + perpQuoteAdjust g c acct i) = 0"
    by (rule sum.neutral) (simp add: zero_spot [OF assms(2)] zero_perp [OF assms(2)] len)
  show ?thesis
    by (simp add: resolved_def resolvedQuote_def s p q adj)
qed

lemma zero_healthOf:
  "healthOf g c (replicate (numOracles g) 0) (replicate (numOracles g) 0) 0 healthType = 0"
  by (simp add: healthOf_def marketHealth_def weightedValue_def)

lemma zero_assetsLiabsOf:
  "assetsLiabsOf g c (replicate (numOracles g) 0) (replicate (numOracles g) 0) 0 healthType
     = \<lparr> assets = 0, liabs = 0 \<rparr>"
  by (simp add: assetsLiabsOf_def marketAssets_def marketLiabs_def assetPart_def liabPart_def)

lemma zeroSnapshot_wellFormed: "wellFormed perpGroup orderCache zeroSnapshotAccount"
  by (simp add: wellFormed_def perpGroup_def orderCache_def zeroSnapshotAccount_def QUOTE_INDEX_def
      fromNumber_def MULTIPLIER_def)

lemma zeroSnapshot_zero: "zeroAccount zeroSnapshotAccount"
  by (simp add: zeroAccount_def zeroSnapshotAccount_def)

lemmas eval_assets_defs = assetsLiabsOf_def marketAssets_def marketLiabs_def assetPart_def
  liabPart_def

lemma debt_wellFormed: "wellFormed (orderGroup w) orderCache debtAccount"
  by (simp add: wellFormed_def orderGroup_def orderCache_def debtAccount_def QUOTE_INDEX_def
      fromNumber_def MULTIPLIER_def)

lemma debt_resolved:
  "resolved (orderGroup w) orderCache debtAccount =
     \<lparr> spot = [fromNumber 50], perps = [0], quote = fromNumber (- 1000) \<rparr>"
  by (simp add: eval_defs orderGroup_def orderCache_def debtAccount_def nth_append)

lemma debt_covers: "coversOracles (orderGroup w) orderCache [fromNumber 50] [0]"
  by (simp add: coversOracles_def orderGroup_def orderCache_def)

lemma debt_assetsLiabs:
  "assetsLiabsOf (orderGroup (- ONE_I80F48)) orderCache [fromNumber 50] [0] (fromNumber (- 1000)) Init
     = \<lparr> assets = fromNumber (- 500), liabs = fromNumber 1000 \<rparr>"
  by (simp add: eval_assets_defs eval_defs orderGroup_def orderCache_def)

lemma flip_resolved_100:
  "resolved flipGroup orderCache (flipAccount (fromNumber 100)) =
     \<lparr> spot = [fromNumber (- 100)], perps = [0], quote = fromNumber 210 \<rparr>"
  by (simp add: eval_defs flipGroup_def orderCache_def flipAccount_def)

lemma flip_assetsLiabs_100:
  "assetsLiabsOf flipGroup orderCache [fromNumber (- 100)] [0] (fromNumber 210) Init
     = \<lparr> assets = fromNumber 210, liabs = fromNumber 1250 \<rparr>"
  by (simp add: eval_assets_defs eval_defs flipGroup_def orderCache_def)

lemma flip_nonnegative: "nonnegativeMarkets flipGroup orderCache healthType"
  by (cases healthType)
     (simp_all add: nonnegativeMarkets_def eval_defs flipGroup_def orderCache_def)

lemma flip_covers: "coversOracles flipGroup orderCache [x] [y]"
  by (simp add: coversOracles_def flipGroup_def orderCache_def)

section \<open>The liquidation-price loop in closed form\<close>





section \<open>Monotonicity of the truncating product\<close>

lemma tquot_pos_divisor:
  "0 < m \<Longrightarrow> tquot x m = (if 0 \<le> x then x div m else - ((- x) div m))"
  by (simp add: tquot_def sgn_if abs_if)

lemma tquot_mono:
  assumes "0 < m" "x \<le> y"
  shows "tquot x m \<le> tquot y m"
proof -
  consider "0 \<le> x" | "x < 0" "0 \<le> y" | "y < 0" using assms(2) by linarith
  then show ?thesis
  proof cases
    case 1
    then show ?thesis
      using assms by (simp add: tquot_pos_divisor zdiv_mono1)
  next
    case 2
    have "0 \<le> (- x) div m" "0 \<le> y div m"
      using 2 assms(1) by (simp_all add: pos_imp_zdiv_nonneg_iff)
    then show ?thesis using 2 assms(1) by (simp add: tquot_pos_divisor)
  next
    case 3
    have "(- y) div m \<le> (- x) div m"
      using assms by (intro zdiv_mono1) simp_all
    then show ?thesis using 3 assms by (simp add: tquot_pos_divisor)
  qed
qed

lemma tquot_strict_nonpos:
  assumes "0 < m" "y \<le> 0" "x + m \<le> y"
  shows "tquot x m < tquot y m"
proof -
  have x: "x < 0" using assms by linarith
  have "(- y) div m + 1 = (- y + m) div m"
    using assms(1) div_add_self2 [of m "- y"] by simp
  also have "\<dots> \<le> (- x) div m"
    using assms by (intro zdiv_mono1) simp_all
  finally have "(- y) div m < (- x) div m" by simp
  moreover have "tquot y m = - ((- y) div m)"
    using assms by (cases "y = 0") (simp_all add: tquot_pos_divisor)
  ultimately show ?thesis using x assms(1) by (simp add: tquot_pos_divisor)
qed

lemma tquot_strict_nonneg:
  assumes "0 < m" "0 \<le> x" "x + m \<le> y"
  shows "tquot x m < tquot y m"
proof -
  have "x div m + 1 = (x + m) div m"
    using assms(1) div_add_self2 [of m x] by simp
  also have "\<dots> \<le> y div m"
    using assms by (intro zdiv_mono1) simp_all
  finally show ?thesis using assms by (simp add: tquot_pos_divisor)
qed

lemma MULTIPLIER_pos: "0 < MULTIPLIER"
  by (simp add: MULTIPLIER_def)

lemma I80F48_mul_mono:
  "0 \<le> w \<Longrightarrow> a \<le> b \<Longrightarrow> I80F48_mul a w \<le> I80F48_mul b w"
  unfolding I80F48_mul_def by (intro tquot_mono MULTIPLIER_pos mult_right_mono)

lemma I80F48_mul_nonpos: "a \<le> 0 \<Longrightarrow> 0 \<le> w \<Longrightarrow> I80F48_mul a w \<le> 0"
  using I80F48_mul_mono [of w a 0] by (simp add: I80F48_mul_def tquot_def)

lemma I80F48_mul_strict_nonpos:
  assumes "ONE_I80F48 \<le> w" "a < b" "b \<le> 0"
  shows "I80F48_mul a w < I80F48_mul b w"
proof -
  have w: "MULTIPLIER \<le> w" using assms(1) by (simp add: ONE_I80F48_def)
  then have w0: "0 \<le> w" using MULTIPLIER_pos by linarith
  have "a * w \<le> (b - 1) * w"
    using assms(2) w0 by (intro mult_right_mono) simp_all
  then have "a * w + MULTIPLIER \<le> b * w"
    using w by (simp add: algebra_simps)
  moreover have "b * w \<le> 0"
    using assms(3) w0 by (simp add: mult_nonpos_nonneg)
  ultimately show ?thesis
    unfolding I80F48_mul_def by (intro tquot_strict_nonpos MULTIPLIER_pos)
qed

lemma I80F48_mul_strict_nonneg:
  assumes "ONE_I80F48 \<le> w" "0 \<le> a" "a < b"
  shows "I80F48_mul a w < I80F48_mul b w"
proof -
  have w: "MULTIPLIER \<le> w" using assms(1) by (simp add: ONE_I80F48_def)
  then have w0: "0 \<le> w" using MULTIPLIER_pos by linarith
  have "(a + 1) * w \<le> b * w"
    using assms(3) w0 by (intro mult_right_mono) simp_all
  then have "a * w + MULTIPLIER \<le> b * w"
    using w by (simp add: algebra_simps)
  moreover have "0 \<le> a * w"
    using assms(2) w0 by simp
  ultimately show ?thesis
    unfolding I80F48_mul_def by (intro tquot_strict_nonneg MULTIPLIER_pos)
qed

lemma I80F48_mul_nonneg': "0 \<le> x \<Longrightarrow> 0 \<le> y \<Longrightarrow> 0 \<le> I80F48_mul x y"
  using I80F48_mul_mono [of y 0 x] by (simp add: I80F48_mul_def tquot_def)

lemma weightedValue_mono:
  assumes "0 \<le> pr" "0 \<le> wa" "0 \<le> wl" "x' \<le> x"
  shows "weightedValue x' pr wa wl \<le> weightedValue x pr wa wl"
proof -
  have m: "I80F48_mul x' pr \<le> I80F48_mul x pr"
    using assms by (intro I80F48_mul_mono)
  consider "0 < x'" | "x \<le> 0" | "x' \<le> 0" "0 < x" using assms(4) by linarith
  then show ?thesis
  proof cases
    case 1
    then show ?thesis using assms m by (simp add: weightedValue_def I80F48_mul_mono)
  next
    case 2
    then show ?thesis using assms m by (simp add: weightedValue_def I80F48_mul_mono)
  next
    case 3
    have "I80F48_mul (I80F48_mul x' pr) wl \<le> 0"
      using 3 assms by (intro I80F48_mul_nonpos) simp_all
    moreover have "0 \<le> I80F48_mul (I80F48_mul x pr) wa"
      using 3 assms by (intro I80F48_mul_nonneg') simp_all
    ultimately show ?thesis using 3 by (simp add: weightedValue_def)
  qed
qed

lemma weightedValue_strict:
  assumes "ONE_I80F48 \<le> pr" "ONE_I80F48 \<le> wl" "x' < x" "x \<le> 0"
  shows "weightedValue x' pr wa wl < weightedValue x pr wa wl"
proof -
  have pr0: "0 \<le> pr" using assms(1) MULTIPLIER_pos by (simp add: ONE_I80F48_def)
  have lt: "I80F48_mul x' pr < I80F48_mul x pr"
    using assms(1,3,4) by (rule I80F48_mul_strict_nonpos)
  have le: "I80F48_mul x pr \<le> 0"
    using assms(4) pr0 by (rule I80F48_mul_nonpos)
  have "I80F48_mul (I80F48_mul x' pr) wl < I80F48_mul (I80F48_mul x pr) wl"
    using assms(2) lt le by (rule I80F48_mul_strict_nonpos)
  then show ?thesis using assms by (simp add: weightedValue_def)
qed

section \<open>Health when one liability grows\<close>

lemma healthOf_update_spot:
  assumes "i < numOracles g" "i < length spot'"
  shows "healthOf g c (spot'[i := x]) perps' quote' healthType =
         healthOf g c spot' perps' quote' healthType
           - weightedValue (spot' ! i) (priceOf c i)
               (spotAssetWeight (weightsOf g i healthType)) (spotLiabWeight (weightsOf g i healthType))
           + weightedValue x (priceOf c i)
               (spotAssetWeight (weightsOf g i healthType)) (spotLiabWeight (weightsOf g i healthType))"
proof -
  let ?f = "marketHealth g c spot' perps' healthType"
  let ?f' = "marketHealth g c (spot'[i := x]) perps' healthType"
  have mem: "i \<in> {..<numOracles g}" using assms(1) by simp
  have rest: "(\<Sum>j \<in> {..<numOracles g} - {i}. ?f' j) = (\<Sum>j \<in> {..<numOracles g} - {i}. ?f j)"
    by (rule sum.cong) (simp_all add: marketHealth_def)
  have "(\<Sum>j<numOracles g. ?f' j) = ?f' i + (\<Sum>j \<in> {..<numOracles g} - {i}. ?f' j)"
    using mem by (simp add: sum.remove)
  moreover have "(\<Sum>j<numOracles g. ?f j) = ?f i + (\<Sum>j \<in> {..<numOracles g} - {i}. ?f j)"
    using mem by (simp add: sum.remove)
  ultimately show ?thesis
    using rest assms(2) by (simp add: healthOf_def marketHealth_def)
qed

lemma healthOf_update_perps:
  assumes "i < numOracles g" "i < length perps'"
  shows "healthOf g c spot' (perps'[i := y]) quote' healthType =
         healthOf g c spot' perps' quote' healthType
           - weightedValue (perps' ! i) (priceOf c i)
               (perpAssetWeight (weightsOf g i healthType)) (perpLiabWeight (weightsOf g i healthType))
           + weightedValue y (priceOf c i)
               (perpAssetWeight (weightsOf g i healthType)) (perpLiabWeight (weightsOf g i healthType))"
proof -
  let ?f = "marketHealth g c spot' perps' healthType"
  let ?f' = "marketHealth g c spot' (perps'[i := y]) healthType"
  have mem: "i \<in> {..<numOracles g}" using assms(1) by simp
  have rest: "(\<Sum>j \<in> {..<numOracles g} - {i}. ?f' j) = (\<Sum>j \<in> {..<numOracles g} - {i}. ?f j)"
    by (rule sum.cong) (simp_all add: marketHealth_def)
  have "(\<Sum>j<numOracles g. ?f' j) = ?f' i + (\<Sum>j \<in> {..<numOracles g} - {i}. ?f' j)"
    using mem by (simp add: sum.remove)
  moreover have "(\<Sum>j<numOracles g. ?f j) = ?f i + (\<Sum>j \<in> {..<numOracles g} - {i}. ?f j)"
    using mem by (simp add: sum.remove)
  ultimately show ?thesis
    using rest assms(2) by (simp add: healthOf_def marketHealth_def)
qed

lemma healthOf_quote:
  "healthOf g c spot' perps' q' healthType =
     healthOf g c spot' perps' q healthType - q + q'"
  by (simp add: healthOf_def)

lemma withBorrow_openOrders [simp]:
  "openOrdersInBasket (withBorrow acct k b') j = openOrdersInBasket acct j"
  by (simp add: withBorrow_def openOrdersInBasket_def)

lemma withBorrow_wellFormed:
  "wellFormed g c acct \<Longrightarrow> wellFormed g c (withBorrow acct k b')"
  unfolding wellFormed_def withBorrow_openOrders by (simp add: withBorrow_def)

lemma withBorrow_netOf_other: "j \<noteq> k \<Longrightarrow> netOf c (withBorrow acct k b') j = netOf c acct j"
  by (simp add: netOf_def withBorrow_def)

lemma withBorrow_netOf_same:
  "k < length (borrows acct) \<Longrightarrow>
   netOf c (withBorrow acct k b') k =
     netOf c acct k + I80F48_mul (borrows acct ! k) (borrowIndex (rootBankCache c ! k))
       - I80F48_mul b' (borrowIndex (rootBankCache c ! k))"
  by (simp add: netOf_def withBorrow_def)

lemma withBorrow_spot_other:
  assumes "j \<noteq> k"
  shows "worstSpot c (withBorrow acct k b') j = worstSpot c acct j"
    and "spotQuoteAdjust c (withBorrow acct k b') j = spotQuoteAdjust c acct j"
  using assms
  by (cases "openOrdersInBasket acct j";
      simp add: worstSpot_def spotQuoteAdjust_def spotBidsCase_def spotAsksCase_def
        withBorrow_netOf_other)+

lemma withBorrow_perp:
  "worstPerp g (withBorrow acct k b') j = worstPerp g acct j"
  "perpQuoteAdjust g c (withBorrow acct k b') j = perpQuoteAdjust g c acct j"
  by (simp_all add: worstPerp_def perpQuoteAdjust_def perpBidsCase_def perpAsksCase_def
      withBorrow_def)

lemma resolved_withBorrow_market:
  assumes "wellFormed g c acct" "i < numOracles g" "openOrdersInBasket acct i = None"
  shows "resolved g c (withBorrow acct i b') =
     \<lparr> spot = (spot (resolved g c acct))[i := netOf c (withBorrow acct i b') i],
       perps = perps (resolved g c acct),
       quote = quote (resolved g c acct) \<rparr>"
proof -
  let ?a = "withBorrow acct i b'"
  have q: "i \<noteq> QUOTE_INDEX" using assms(1,2) by (simp add: wellFormed_def)
  have s: "map (worstSpot c ?a) [0..<numOracles g]
      = (map (worstSpot c acct) [0..<numOracles g])[i := netOf c ?a i]"
  proof (rule nth_equalityI)
    show "length (map (worstSpot c ?a) [0..<numOracles g])
        = length ((map (worstSpot c acct) [0..<numOracles g])[i := netOf c ?a i])" by simp
  next
    fix j assume "j < length (map (worstSpot c ?a) [0..<numOracles g])"
    then have j: "j < numOracles g" by simp
    show "map (worstSpot c ?a) [0..<numOracles g] ! j
        = (map (worstSpot c acct) [0..<numOracles g])[i := netOf c ?a i] ! j"
    proof (cases "j = i")
      case True
      then show ?thesis using j assms(3) by (simp add: worstSpot_def)
    next
      case False
      then show ?thesis using j by (simp add: withBorrow_spot_other)
    qed
  qed
  have adj: "spotQuoteAdjust c ?a j = spotQuoteAdjust c acct j" for j
    using assms(3) by (cases "j = i") (simp_all add: withBorrow_spot_other, simp add: spotQuoteAdjust_def)
  show ?thesis
    using q by (simp add: resolved_def resolvedQuote_def s adj withBorrow_perp withBorrow_netOf_other)
qed

lemma resolved_withBorrow_quote:
  assumes "wellFormed g c acct"
  shows "resolved g c (withBorrow acct QUOTE_INDEX b') =
     \<lparr> spot = spot (resolved g c acct),
       perps = perps (resolved g c acct),
       quote = quote (resolved g c acct) - netOf c acct QUOTE_INDEX
                 + netOf c (withBorrow acct QUOTE_INDEX b') QUOTE_INDEX \<rparr>"
proof -
  let ?a = "withBorrow acct QUOTE_INDEX b'"
  have ne: "j \<noteq> QUOTE_INDEX" if "j < numOracles g" for j
    using assms that by (simp add: wellFormed_def)
  have s: "map (worstSpot c ?a) [0..<numOracles g] = map (worstSpot c acct) [0..<numOracles g]"
    by (rule map_cong) (simp_all add: withBorrow_spot_other ne)
  have sq: "spotQuoteAdjust c ?a j = spotQuoteAdjust c acct j" if "j < numOracles g" for j
    using ne [OF that] by (rule withBorrow_spot_other)
  have adj: "(\<Sum>j<numOracles g. spotQuoteAdjust c ?a j + perpQuoteAdjust g c acct j)
      = (\<Sum>j<numOracles g. spotQuoteAdjust c acct j + perpQuoteAdjust g c acct j)"
    by (intro sum.cong refl) (simp add: sq)
  show ?thesis
    by (simp add: resolved_def resolvedQuote_def s adj withBorrow_perp)
qed

lemma resolved_spot_nth:
  "i < numOracles g \<Longrightarrow> spot (resolved g c acct) ! i = worstSpot c acct i"
  by (simp add: resolved_def)

lemma resolved_lengths [simp]:
  "length (spot (resolved g c acct)) = numOracles g"
  "length (perps (resolved g c acct)) = numOracles g"
  by (simp_all add: resolved_def)

lemma health_borrow_market:
  assumes wf: "wellFormed g c acct" and i: "i < numOracles g"
    and oo: "openOrdersInBasket acct i = None"
  shows "getHealth g c (withBorrow acct i b') healthType =
     Some (healthOf g c (spot (resolved g c acct)) (perps (resolved g c acct))
             (quote (resolved g c acct)) healthType
           - weightedValue (netOf c acct i) (priceOf c i)
               (spotAssetWeight (weightsOf g i healthType)) (spotLiabWeight (weightsOf g i healthType))
           + weightedValue (netOf c (withBorrow acct i b') i) (priceOf c i)
               (spotAssetWeight (weightsOf g i healthType)) (spotLiabWeight (weightsOf g i healthType)))"
proof -
  have s: "spot (resolved g c acct) ! i = netOf c acct i"
    using i oo by (simp add: resolved_spot_nth worstSpot_def)
  show ?thesis
    using healthOf_update_spot [of i g "spot (resolved g c acct)" c
        "netOf c (withBorrow acct i b') i" "perps (resolved g c acct)" "quote (resolved g c acct)"
        healthType] i
    by (simp add: getHealth_closed [OF withBorrow_wellFormed [OF wf]]
        resolved_withBorrow_market [OF wf i oo] s)
qed

lemma health_borrow_quote:
  assumes wf: "wellFormed g c acct"
  shows "getHealth g c (withBorrow acct QUOTE_INDEX b') healthType =
     Some (healthOf g c (spot (resolved g c acct)) (perps (resolved g c acct))
             (quote (resolved g c acct)) healthType
           - netOf c acct QUOTE_INDEX + netOf c (withBorrow acct QUOTE_INDEX b') QUOTE_INDEX)"
  using healthOf_quote [of g c "spot (resolved g c acct)" "perps (resolved g c acct)"
      "quote (resolved g c acct) - netOf c acct QUOTE_INDEX
         + netOf c (withBorrow acct QUOTE_INDEX b') QUOTE_INDEX" healthType "quote (resolved g c acct)"]
  by (simp add: getHealth_closed [OF withBorrow_wellFormed [OF wf]] resolved_withBorrow_quote [OF wf])

lemma health_perp_component:
  assumes wf: "wellFormed g c acct" and i: "i < numOracles g"
  shows "getHealthFromComponents g c (spot (resolved g c acct)) ((perps (resolved g c acct))[i := y])
           (quote (resolved g c acct)) healthType =
     Some (healthOf g c (spot (resolved g c acct)) (perps (resolved g c acct))
             (quote (resolved g c acct)) healthType
           - weightedValue (perps (resolved g c acct) ! i) (priceOf c i)
               (perpAssetWeight (weightsOf g i healthType)) (perpLiabWeight (weightsOf g i healthType))
           + weightedValue y (priceOf c i)
               (perpAssetWeight (weightsOf g i healthType)) (perpLiabWeight (weightsOf g i healthType)))"
proof -
  have cov: "coversOracles g c (spot (resolved g c acct)) ((perps (resolved g c acct))[i := y])"
    using resolved_covers [OF wf] by (simp add: coversOracles_def)
  show ?thesis
    using healthOf_update_perps [of i g "perps (resolved g c acct)" c "spot (resolved g c acct)" y
        "quote (resolved g c acct)" healthType] i
    by (simp add: getHealthFromComponents_closed [OF cov])
qed

lemma plain_wellFormed: "wellFormed (orderGroup w) orderCache (plainAccount b)"
  by (simp add: wellFormed_def orderGroup_def orderCache_def plainAccount_def QUOTE_INDEX_def
      openOrdersInBasket_def)

lemma plain_quarter_wellFormed: "wellFormed (orderGroup w) quarterPriceCache (plainAccount b)"
  by (simp add: wellFormed_def orderGroup_def quarterPriceCache_def plainAccount_def QUOTE_INDEX_def
      openOrdersInBasket_def)

lemma flip_health_10_Init:
  "getHealth flipGroup orderCache (flipAccount (fromNumber 10)) Init = Some (fromNumber 55)"
  unfolding getHealth_closed [OF flip_wellFormed]
  by (simp add: eval_defs flipGroup_def orderCache_def flipAccount_def)

lemma flip_health_11_Init:
  "getHealth flipGroup orderCache (flipAccount (fromNumber 11)) Init = Some (145 * 2 ^ 47)"
  unfolding getHealth_closed [OF flip_wellFormed]
  by (simp add: eval_defs flipGroup_def orderCache_def flipAccount_def)

lemma flip_health_10_Maint:
  "getHealth flipGroup orderCache (flipAccount (fromNumber 10)) Maint = Some (165 * 2 ^ 47)"
  unfolding getHealth_closed [OF flip_wellFormed]
  by (simp add: eval_defs flipGroup_def orderCache_def flipAccount_def)

lemma flip_health_11_Maint:
  "getHealth flipGroup orderCache (flipAccount (fromNumber 11)) Maint = Some (345 * 2 ^ 46)"
  unfolding getHealth_closed [OF flip_wellFormed]
  by (simp add: eval_defs flipGroup_def orderCache_def flipAccount_def)

lemma quarter_health_5:
  "getHealth (orderGroup ONE_I80F48) quarterPriceCache (plainAccount 5) healthType = Some (- 1)"
  unfolding getHealth_closed [OF plain_quarter_wellFormed]
  by (cases healthType)
     (simp_all add: eval_defs orderGroup_def quarterPriceCache_def plainAccount_def)

lemma quarter_health_6:
  "getHealth (orderGroup ONE_I80F48) quarterPriceCache (plainAccount 6) healthType = Some (- 1)"
  unfolding getHealth_closed [OF plain_quarter_wellFormed]
  by (cases healthType)
     (simp_all add: eval_defs orderGroup_def quarterPriceCache_def plainAccount_def)

lemma plain_resolved:
  "resolved (orderGroup ONE_I80F48) orderCache (plainAccount 0) =
     \<lparr> spot = [0], perps = [0], quote = 0 \<rparr>"
  by (simp add: eval_defs orderGroup_def orderCache_def plainAccount_def)

section \<open>Deposit and debt examples\<close>






section \<open>Worst-case resolution of spot open orders\<close>

text \<open>
  Claim C1. On well-formed inputs the resolver \<open>getHealthComponents\<close> returns, and for
  every market index \<open>i\<close> below \<open>numOracles\<close>: when the margin-basket flag is set and
  the open-orders record is present, \<open>spot[i]\<close> is the bids case
  \<open>baseNet + quoteLocked/price + baseFree + baseLocked\<close> if its absolute value is
  larger than that of the asks case \<open>baseNet + baseFree\<close>, and the asks case otherwise;
  the market adds \<open>quoteFree\<close> to \<open>quote\<close> in the bids case and
  \<open>baseLocked * price + quoteFree + quoteLocked\<close> in the asks case. When the record is
  absent or the flag is unset, \<open>spot[i]\<close> is \<open>baseNet\<close> and the market adds nothing to
  \<open>quote\<close>. The returned \<open>quote\<close> is the net quote balance plus the adjustments of
  all markets. (\<open>openOrdersInBasket\<close> gives the record exactly when the flag is set and
  the record is present.)
\<close>

theorem resolver_spot_worst_case:
  assumes "wellFormed g c acct" and "i < numOracles g"
  shows "\<exists>hc. getHealthComponents g c acct = Some hc \<and>
           length (spot hc) = numOracles g \<and>
           spot hc ! i =
             (case openOrdersInBasket acct i of
                None \<Rightarrow> netOf c acct i
              | Some oo \<Rightarrow>
                  if \<bar>spotBidsCase c acct i oo\<bar> > \<bar>spotAsksCase c acct i oo\<bar>
                  then spotBidsCase c acct i oo else spotAsksCase c acct i oo) \<and>
           quote hc = netOf c acct QUOTE_INDEX
             + (\<Sum>j < numOracles g. spotQuoteAdjust c acct j + perpQuoteAdjust g c acct j) \<and>
           spotQuoteAdjust c acct i =
             (case openOrdersInBasket acct i of
                None \<Rightarrow> 0
              | Some oo \<Rightarrow>
                  if \<bar>spotBidsCase c acct i oo\<bar> > \<bar>spotAsksCase c acct i oo\<bar>
                  then quoteFree oo
                  else I80F48_mul (baseLocked oo) (priceOf c i) + quoteFree oo + quoteLocked oo) \<and>
           (\<forall>oo. (openOrdersInBasket acct i = Some oo) =
                   (i < length (inMarginBasket acct) \<and> inMarginBasket acct ! i \<and>
                    i < length (spotOpenOrdersAccounts acct) \<and>
                    spotOpenOrdersAccounts acct ! i = Some oo))"
  using assms getHealthComponents_resolved [OF assms(1)] openOrdersInBasket_Some [of acct i]
  by (simp add: resolved_def resolvedQuote_def worstSpot_def spotQuoteAdjust_def)

theorem resolver_spot_worst_case_witness:
  "wellFormed (orderGroup ONE_I80F48) orderCache orderAccount \<and>
   0 < numOracles (orderGroup ONE_I80F48) \<and>
   (\<exists>hc. getHealthComponents (orderGroup ONE_I80F48) orderCache orderAccount = Some hc \<and>
      spot hc ! 0 = fromNumber 50)"
proof -
  have n: "0 < numOracles (orderGroup ONE_I80F48)" by (simp add: orderGroup_def)
  have pos: "\<bar>0::int\<bar> < \<bar>fromNumber 50\<bar>" by (simp add: fromNumber_def MULTIPLIER_def)
  show ?thesis
    using resolver_spot_worst_case [OF orderSnapshot_wellFormed n]
      orderSnapshot_wellFormed [of ONE_I80F48] n
    unfolding order_openOrders option.case order_bids order_asks
    using pos by auto
qed

section \<open>Worst-case resolution of perp orders\<close>

text \<open>
  Claim C2. On well-formed inputs the resolver returns, and for every market index \<open>i\<close>
  below \<open>numOracles\<close> with a registered perp market: with
  \<open>bidsBaseNet = (basePosition + takerBase) * baseLotSize + bidsQuantity * baseLotSize\<close>
  and \<open>asksBaseNet = (basePosition + takerBase) * baseLotSize - asksQuantity * baseLotSize\<close>,
  \<open>perps[i]\<close> is \<open>bidsBaseNet\<close> if its absolute value is larger than that of
  \<open>asksBaseNet\<close>, and \<open>asksBaseNet\<close> otherwise; the market adds to \<open>quote\<close> the
  funding-adjusted quote position plus \<open>takerQuote * quoteLotSize\<close>, minus
  \<open>bidsQuantity * baseLotSize * price\<close> in the bids case, plus
  \<open>asksQuantity * baseLotSize * price\<close> in the asks case. With no registered perp
  market, \<open>perps[i]\<close> is zero and the market adds nothing to \<open>quote\<close>.
\<close>

theorem resolver_perp_worst_case:
  assumes "wellFormed g c acct" and "i < numOracles g"
  shows "\<exists>hc. getHealthComponents g c acct = Some hc \<and>
           length (perps hc) = numOracles g \<and>
           perps hc ! i =
             (if perpMarket (perpMarkets g ! i) \<noteq> zeroKey
              then (if \<bar>perpBidsCase g acct i\<bar> > \<bar>perpAsksCase g acct i\<bar>
                    then perpBidsCase g acct i else perpAsksCase g acct i)
              else 0) \<and>
           perpBidsCase g acct i =
             fromI64 ((basePosition (perpAccounts acct ! i) + takerBase (perpAccounts acct ! i))
                        * baseLotSize (perpMarkets g ! i)
                      + bidsQuantity (perpAccounts acct ! i) * baseLotSize (perpMarkets g ! i)) \<and>
           perpAsksCase g acct i =
             fromI64 ((basePosition (perpAccounts acct ! i) + takerBase (perpAccounts acct ! i))
                        * baseLotSize (perpMarkets g ! i)
                      - asksQuantity (perpAccounts acct ! i) * baseLotSize (perpMarkets g ! i)) \<and>
           quote hc = netOf c acct QUOTE_INDEX
             + (\<Sum>j < numOracles g. spotQuoteAdjust c acct j + perpQuoteAdjust g c acct j) \<and>
           perpQuoteAdjust g c acct i =
             (if perpMarket (perpMarkets g ! i) \<noteq> zeroKey
              then (if \<bar>perpBidsCase g acct i\<bar> > \<bar>perpAsksCase g acct i\<bar>
                    then fundingAdjustedQuotePosition (perpAccounts acct ! i)
                       + fromI64 (takerQuote (perpAccounts acct ! i) * quoteLotSize (perpMarkets g ! i))
                       - bidsQuantity (perpAccounts acct ! i) * baseLotSize (perpMarkets g ! i)
                           * priceOf c i
                    else fundingAdjustedQuotePosition (perpAccounts acct ! i)
                       + fromI64 (takerQuote (perpAccounts acct ! i) * quoteLotSize (perpMarkets g ! i))
                       + asksQuantity (perpAccounts acct ! i) * baseLotSize (perpMarkets g ! i)
                           * priceOf c i)
              else 0)"
proof -
  have cases: "perpBidsCase g acct i =
      fromI64 ((basePosition (perpAccounts acct ! i) + takerBase (perpAccounts acct ! i))
                 * baseLotSize (perpMarkets g ! i)
               + bidsQuantity (perpAccounts acct ! i) * baseLotSize (perpMarkets g ! i))"
    "perpAsksCase g acct i =
      fromI64 ((basePosition (perpAccounts acct ! i) + takerBase (perpAccounts acct ! i))
                 * baseLotSize (perpMarkets g ! i)
               - asksQuantity (perpAccounts acct ! i) * baseLotSize (perpMarkets g ! i))"
    by (simp_all add: perpBidsCase_def perpAsksCase_def fromI64_def algebra_simps)
  have "getHealthComponents g c acct = Some (resolved g c acct)
      \<and> length (perps (resolved g c acct)) = numOracles g
      \<and> perps (resolved g c acct) ! i = worstPerp g acct i
      \<and> quote (resolved g c acct) = resolvedQuote g c acct"
    using assms getHealthComponents_resolved [OF assms(1)] by (simp add: resolved_def)
  then show ?thesis
    using cases
    by (simp add: resolvedQuote_def worstPerp_def perpQuoteAdjust_def perpRegistered_def
        mul_fromI64)
qed

theorem resolver_perp_worst_case_witness:
  "wellFormed perpGroup orderCache perpAccountEx \<and> 0 < numOracles perpGroup \<and>
   (\<exists>hc. getHealthComponents perpGroup orderCache perpAccountEx = Some hc \<and>
      perps hc ! 0 = fromI64 90)"
proof -
  have n: "0 < numOracles perpGroup" by (simp add: perpGroup_def)
  have gt: "\<bar>fromI64 20\<bar> < \<bar>fromI64 90\<bar>" by (simp add: fromI64_def MULTIPLIER_def)
  show ?thesis
    using resolver_perp_worst_case [OF perpSnapshot_wellFormed n] perpSnapshot_wellFormed n
      perp_registered
    unfolding perp_bids perp_asks
    using gt by auto
qed

section \<open>Liquidation test\<close>

text \<open>
  Claim C3. On well-formed inputs both healths are computed, and \<open>isLiquidatable\<close>
  returns true if and only if the \<open>beingLiquidated\<close> flag is set and \<open>health(Init)\<close> is
  negative, or \<open>health(Maint)\<close> is negative; the equation holds for either value of the
  flag and either sign of \<open>health(Maint)\<close>.
\<close>

theorem isLiquidatable_formula:
  assumes "wellFormed g c acct"
  shows "\<exists>hi hm. getHealth g c acct Init = Some hi \<and> getHealth g c acct Maint = Some hm \<and>
           isLiquidatable g c acct = Some ((beingLiquidated acct \<and> hi < 0) \<or> hm < 0)"
  using getHealth_closed [OF assms, of Init] getHealth_closed [OF assms, of Maint]
  by (simp add: isLiquidatable_def isNeg_def)

theorem isLiquidatable_formula_witness:
  "wellFormed flipGroup orderCache (flipAccount (fromNumber 100)) \<and>
   isLiquidatable flipGroup orderCache (flipAccount (fromNumber 100)) = Some True"
proof -
  obtain hi :: I80F48 and hm where
    hm: "getHealth flipGroup orderCache (flipAccount (fromNumber 100)) Maint = Some hm" and
    liq: "isLiquidatable flipGroup orderCache (flipAccount (fromNumber 100)) =
            Some ((beingLiquidated (flipAccount (fromNumber 100)) \<and> hi < 0) \<or> hm < 0)"
    using isLiquidatable_formula [OF flip_wellFormed, of "fromNumber 100"] by blast
  have "hm < 0"
    using hm unfolding flip_health_100_Maint by (simp add: fromNumber_def MULTIPLIER_def)
  then show ?thesis
    using liq flip_wellFormed by simp
qed

section \<open>Health ratio\<close>

text \<open>
  Claim C4. On well-formed inputs, for either health type, \<open>getHealthRatio\<close> returns
  \<open>(assets / liabs - 1) * 100\<close> in fixed-point arithmetic when the weighted liabilities
  returned by \<open>getWeightedAssetsLiabsVals\<close> are strictly positive, and exactly 100
  otherwise, whatever the assets are; liabilities equal to zero are the second case.
\<close>

theorem healthRatio_formula:
  assumes "wellFormed g c acct"
  shows "\<exists>hc al. getHealthComponents g c acct = Some hc \<and>
           getWeightedAssetsLiabsVals g c (spot hc) (perps hc) (quote hc) healthType = Some al \<and>
           getHealthRatio g c acct healthType =
             Some (if liabs al > 0
                   then I80F48_mul (I80F48_quot (assets al) (liabs al) - ONE_I80F48) (fromNumber 100)
                   else fromNumber 100)"
  using getHealthComponents_resolved [OF assms]
    getWeightedAssetsLiabsVals_closed [OF resolved_covers [OF assms]]
  by (simp add: getHealthRatio_def I80F48_gt_def ZERO_I80F48_def I80F48_div_def I80F48_sub_def)

theorem healthRatio_formula_witness:
  "wellFormed flipGroup orderCache (flipAccount (fromNumber 100)) \<and>
   getHealthRatio flipGroup orderCache (flipAccount (fromNumber 100)) Init =
     Some (I80F48_mul (I80F48_quot (fromNumber 210) (fromNumber 1250) - ONE_I80F48) (fromNumber 100))"
proof -
  obtain hc al where
    hc: "getHealthComponents flipGroup orderCache (flipAccount (fromNumber 100)) = Some hc" and
    al: "getWeightedAssetsLiabsVals flipGroup orderCache (spot hc) (perps hc) (quote hc) Init = Some al" and
    r: "getHealthRatio flipGroup orderCache (flipAccount (fromNumber 100)) Init =
             Some (if liabs al > 0
                   then I80F48_mul (I80F48_quot (assets al) (liabs al) - ONE_I80F48) (fromNumber 100)
                   else fromNumber 100)"
    using healthRatio_formula [OF flip_wellFormed, of "fromNumber 100" Init] by blast
  have "hc = \<lparr> spot = [fromNumber (- 100)], perps = [0], quote = fromNumber 210 \<rparr>"
    using hc getHealthComponents_resolved [OF flip_wellFormed, of "fromNumber 100"]
    by (simp add: flip_resolved_100)
  then have "al = \<lparr> assets = fromNumber 210, liabs = fromNumber 1250 \<rparr>"
    using al getWeightedAssetsLiabsVals_closed [OF flip_covers, of "fromNumber (- 100)" 0 "fromNumber 210" Init]
    by (simp add: flip_assetsLiabs_100)
  moreover have "fromNumber 1250 > 0" by (simp add: fromNumber_def MULTIPLIER_def)
  ultimately show ?thesis using r flip_wellFormed by simp
qed

section \<open>Liquidation price\<close>



section \<open>Margin available and available balance\<close>




section \<open>Monotonicity in a liability\<close>

text \<open>
  Claim C7, amended. For a well-formed snapshot, a market \<open>i\<close> and either health type:
  raising the borrow balance of market \<open>i\<close>, with everything else fixed, never raises
  health when the market has no open orders in the margin basket and its borrow index,
  price and spot weights are nonnegative, and strictly lowers health when moreover the
  market's net balance is not positive, the borrow balance is nonnegative and the borrow
  index, the price and the spot liability weight are at least 1; raising a nonnegative
  borrow balance of the quote token strictly lowers health when the quote borrow index
  is at least 1; and in \<open>getHealthFromComponents\<close>, replacing \<open>perps[i]\<close> by a smaller
  value never raises health when the price and the perp weights are nonnegative, and
  strictly lowers it when \<open>perps[i]\<close> is not positive and the price and the perp
  liability weight are at least 1.
\<close>

theorem liability_monotone:
  assumes "wellFormed g c acct" and "i < numOracles g"
  shows "\<exists>h. getHealth g c acct healthType = Some h \<and>
    (\<forall>b'. openOrdersInBasket acct i = None \<and> borrows acct ! i \<le> b' \<and>
          0 \<le> borrowIndex (rootBankCache c ! i) \<and> 0 \<le> priceOf c i \<and>
          0 \<le> spotAssetWeight (weightsOf g i healthType) \<and>
          0 \<le> spotLiabWeight (weightsOf g i healthType)
       \<longrightarrow> (\<exists>h'. getHealth g c (withBorrow acct i b') healthType = Some h' \<and> h' \<le> h)) \<and>
    (\<forall>b'. openOrdersInBasket acct i = None \<and> netOf c acct i \<le> 0 \<and>
          0 \<le> borrows acct ! i \<and> borrows acct ! i < b' \<and>
          ONE_I80F48 \<le> borrowIndex (rootBankCache c ! i) \<and> ONE_I80F48 \<le> priceOf c i \<and>
          ONE_I80F48 \<le> spotLiabWeight (weightsOf g i healthType)
       \<longrightarrow> (\<exists>h'. getHealth g c (withBorrow acct i b') healthType = Some h' \<and> h' < h)) \<and>
    (\<forall>b'. 0 \<le> borrows acct ! QUOTE_INDEX \<and> borrows acct ! QUOTE_INDEX < b' \<and>
          ONE_I80F48 \<le> borrowIndex (rootBankCache c ! QUOTE_INDEX)
       \<longrightarrow> (\<exists>h'. getHealth g c (withBorrow acct QUOTE_INDEX b') healthType = Some h' \<and> h' < h)) \<and>
    (\<forall>hc y. getHealthComponents g c acct = Some hc \<and> y \<le> perps hc ! i \<and>
          0 \<le> priceOf c i \<and>
          0 \<le> perpAssetWeight (weightsOf g i healthType) \<and>
          0 \<le> perpLiabWeight (weightsOf g i healthType)
       \<longrightarrow> (\<exists>h'. getHealthFromComponents g c (spot hc) ((perps hc)[i := y]) (quote hc) healthType
                   = Some h' \<and> h' \<le> h)) \<and>
    (\<forall>hc y. getHealthComponents g c acct = Some hc \<and> y < perps hc ! i \<and> perps hc ! i \<le> 0 \<and>
          ONE_I80F48 \<le> priceOf c i \<and>
          ONE_I80F48 \<le> perpLiabWeight (weightsOf g i healthType)
       \<longrightarrow> (\<exists>h'. getHealthFromComponents g c (spot hc) ((perps hc)[i := y]) (quote hc) healthType
                   = Some h' \<and> h' < h))"
proof -
  note wf = assms(1) and i = assms(2)
  let ?R = "resolved g c acct"
  let ?h = "healthOf g c (spot ?R) (perps ?R) (quote ?R) healthType"
  have len: "i < length (borrows acct)" "QUOTE_INDEX < length (borrows acct)"
    using wf i by (simp_all add: wellFormed_def)
  have h: "getHealth g c acct healthType = Some ?h"
    by (rule getHealth_closed [OF wf])
  have hc: "getHealthComponents g c acct = Some ?R"
    by (rule getHealthComponents_resolved [OF wf])
  have A: "\<exists>h'. getHealth g c (withBorrow acct i b') healthType = Some h' \<and> h' \<le> ?h"
    if "openOrdersInBasket acct i = None" "borrows acct ! i \<le> b'"
      "0 \<le> borrowIndex (rootBankCache c ! i)" "0 \<le> priceOf c i"
      "0 \<le> spotAssetWeight (weightsOf g i healthType)"
      "0 \<le> spotLiabWeight (weightsOf g i healthType)" for b'
  proof -
    have "netOf c (withBorrow acct i b') i \<le> netOf c acct i"
      using I80F48_mul_mono [OF that(3) that(2)] by (simp add: withBorrow_netOf_same len)
    then show ?thesis
      using weightedValue_mono [OF that(4) that(5) that(6)]
      by (simp add: health_borrow_market [OF wf i that(1)])
  qed
  have B: "\<exists>h'. getHealth g c (withBorrow acct i b') healthType = Some h' \<and> h' < ?h"
    if "openOrdersInBasket acct i = None" "netOf c acct i \<le> 0"
      "0 \<le> borrows acct ! i" "borrows acct ! i < b'"
      "ONE_I80F48 \<le> borrowIndex (rootBankCache c ! i)" "ONE_I80F48 \<le> priceOf c i"
      "ONE_I80F48 \<le> spotLiabWeight (weightsOf g i healthType)" for b'
  proof -
    have "netOf c (withBorrow acct i b') i < netOf c acct i"
      using I80F48_mul_strict_nonneg [OF that(5) that(3) that(4)]
      by (simp add: withBorrow_netOf_same len)
    then show ?thesis
      using weightedValue_strict [OF that(6) that(7) _ that(2)]
      by (simp add: health_borrow_market [OF wf i that(1)])
  qed
  have C: "\<exists>h'. getHealth g c (withBorrow acct QUOTE_INDEX b') healthType = Some h' \<and> h' < ?h"
    if "0 \<le> borrows acct ! QUOTE_INDEX" "borrows acct ! QUOTE_INDEX < b'"
      "ONE_I80F48 \<le> borrowIndex (rootBankCache c ! QUOTE_INDEX)" for b'
    using I80F48_mul_strict_nonneg [OF that(3) that(1) that(2)]
    by (simp add: health_borrow_quote [OF wf] withBorrow_netOf_same len)
  have D: "\<exists>h'. getHealthFromComponents g c (spot ?R) ((perps ?R)[i := y]) (quote ?R) healthType
              = Some h' \<and> h' \<le> ?h"
    if "y \<le> perps ?R ! i" "0 \<le> priceOf c i"
      "0 \<le> perpAssetWeight (weightsOf g i healthType)"
      "0 \<le> perpLiabWeight (weightsOf g i healthType)" for y
    using weightedValue_mono [OF that(2) that(3) that(4) that(1)]
    by (simp add: health_perp_component [OF wf i])
  have E: "\<exists>h'. getHealthFromComponents g c (spot ?R) ((perps ?R)[i := y]) (quote ?R) healthType
              = Some h' \<and> h' < ?h"
    if "y < perps ?R ! i" "perps ?R ! i \<le> 0" "ONE_I80F48 \<le> priceOf c i"
      "ONE_I80F48 \<le> perpLiabWeight (weightsOf g i healthType)" for y
    using weightedValue_strict [OF that(3) that(4) that(1) that(2)]
    by (simp add: health_perp_component [OF wf i])
  show ?thesis
    unfolding h hc using A B C D E by auto
qed

theorem liability_monotone_witness:
  "wellFormed (orderGroup ONE_I80F48) orderCache (plainAccount 0) \<and>
   0 < numOracles (orderGroup ONE_I80F48) \<and>
   (\<exists>h h1 h2 h3.
      getHealth (orderGroup ONE_I80F48) orderCache (plainAccount 0) Init = Some h \<and>
      getHealth (orderGroup ONE_I80F48) orderCache (withBorrow (plainAccount 0) 0 (fromNumber 1)) Init
        = Some h1 \<and> h1 \<le> h \<and> h1 < h \<and>
      getHealth (orderGroup ONE_I80F48) orderCache
        (withBorrow (plainAccount 0) QUOTE_INDEX (fromNumber 1)) Init = Some h2 \<and> h2 < h \<and>
      getHealthFromComponents (orderGroup ONE_I80F48) orderCache [0] [- 1] 0 Init = Some h3 \<and>
      h3 \<le> h \<and> h3 < h)"
proof -
  let ?g = "orderGroup ONE_I80F48" and ?a = "plainAccount 0"
  have n: "0 < numOracles ?g" by (simp add: orderGroup_def)
  obtain h where h: "getHealth ?g orderCache ?a Init = Some h"
    and A: "\<And>b'. openOrdersInBasket ?a 0 = None \<and> borrows ?a ! 0 \<le> b' \<and>
          0 \<le> borrowIndex (rootBankCache orderCache ! 0) \<and> 0 \<le> priceOf orderCache 0 \<and>
          0 \<le> spotAssetWeight (weightsOf ?g 0 Init) \<and>
          0 \<le> spotLiabWeight (weightsOf ?g 0 Init)
       \<Longrightarrow> (\<exists>h'. getHealth ?g orderCache (withBorrow ?a 0 b') Init = Some h' \<and> h' \<le> h)"
    and B: "\<And>b'. openOrdersInBasket ?a 0 = None \<and> netOf orderCache ?a 0 \<le> 0 \<and>
          0 \<le> borrows ?a ! 0 \<and> borrows ?a ! 0 < b' \<and>
          ONE_I80F48 \<le> borrowIndex (rootBankCache orderCache ! 0) \<and>
          ONE_I80F48 \<le> priceOf orderCache 0 \<and>
          ONE_I80F48 \<le> spotLiabWeight (weightsOf ?g 0 Init)
       \<Longrightarrow> (\<exists>h'. getHealth ?g orderCache (withBorrow ?a 0 b') Init = Some h' \<and> h' < h)"
    and C: "\<And>b'. 0 \<le> borrows ?a ! QUOTE_INDEX \<and> borrows ?a ! QUOTE_INDEX < b' \<and>
          ONE_I80F48 \<le> borrowIndex (rootBankCache orderCache ! QUOTE_INDEX)
       \<Longrightarrow> (\<exists>h'. getHealth ?g orderCache (withBorrow ?a QUOTE_INDEX b') Init = Some h' \<and> h' < h)"
    and D: "\<And>hc y. getHealthComponents ?g orderCache ?a = Some hc \<and> y \<le> perps hc ! 0 \<and>
          0 \<le> priceOf orderCache 0 \<and>
          0 \<le> perpAssetWeight (weightsOf ?g 0 Init) \<and>
          0 \<le> perpLiabWeight (weightsOf ?g 0 Init)
       \<Longrightarrow> (\<exists>h'. getHealthFromComponents ?g orderCache (spot hc) ((perps hc)[0 := y]) (quote hc) Init
                   = Some h' \<and> h' \<le> h)"
    and E: "\<And>hc y. getHealthComponents ?g orderCache ?a = Some hc \<and> y < perps hc ! 0 \<and>
          perps hc ! 0 \<le> 0 \<and> ONE_I80F48 \<le> priceOf orderCache 0 \<and>
          ONE_I80F48 \<le> perpLiabWeight (weightsOf ?g 0 Init)
       \<Longrightarrow> (\<exists>h'. getHealthFromComponents ?g orderCache (spot hc) ((perps hc)[0 := y]) (quote hc) Init
                   = Some h' \<and> h' < h)"
    using liability_monotone [OF plain_wellFormed [of ONE_I80F48 0] n, where healthType = Init]
    by blast
  have hypA: "openOrdersInBasket ?a 0 = None \<and> borrows ?a ! 0 \<le> fromNumber 1 \<and>
          0 \<le> borrowIndex (rootBankCache orderCache ! 0) \<and> 0 \<le> priceOf orderCache 0 \<and>
          0 \<le> spotAssetWeight (weightsOf ?g 0 Init) \<and>
          0 \<le> spotLiabWeight (weightsOf ?g 0 Init)"
    by (simp add: eval_defs orderGroup_def orderCache_def plainAccount_def)
  have hypB: "openOrdersInBasket ?a 0 = None \<and> netOf orderCache ?a 0 \<le> 0 \<and>
          0 \<le> borrows ?a ! 0 \<and> borrows ?a ! 0 < fromNumber 1 \<and>
          ONE_I80F48 \<le> borrowIndex (rootBankCache orderCache ! 0) \<and>
          ONE_I80F48 \<le> priceOf orderCache 0 \<and>
          ONE_I80F48 \<le> spotLiabWeight (weightsOf ?g 0 Init)"
    by (simp add: eval_defs orderGroup_def orderCache_def plainAccount_def)
  have hypC: "0 \<le> borrows ?a ! QUOTE_INDEX \<and> borrows ?a ! QUOTE_INDEX < fromNumber 1 \<and>
          ONE_I80F48 \<le> borrowIndex (rootBankCache orderCache ! QUOTE_INDEX)"
    by (simp add: eval_defs orderCache_def plainAccount_def)
  have hc: "getHealthComponents ?g orderCache ?a = Some \<lparr> spot = [0], perps = [0], quote = 0 \<rparr>"
    using getHealthComponents_resolved [OF plain_wellFormed, of ONE_I80F48 0]
    by (simp add: plain_resolved)
  have hypD: "getHealthComponents ?g orderCache ?a = Some \<lparr> spot = [0], perps = [0], quote = 0 \<rparr> \<and>
          - 1 \<le> perps \<lparr> spot = [0], perps = [0], quote = 0 \<rparr> ! 0 \<and>
          0 \<le> priceOf orderCache 0 \<and>
          0 \<le> perpAssetWeight (weightsOf ?g 0 Init) \<and>
          0 \<le> perpLiabWeight (weightsOf ?g 0 Init)"
    using hc by (simp add: eval_defs orderGroup_def orderCache_def)
  have hypE: "getHealthComponents ?g orderCache ?a = Some \<lparr> spot = [0], perps = [0], quote = 0 \<rparr> \<and>
          - 1 < perps \<lparr> spot = [0], perps = [0], quote = 0 \<rparr> ! 0 \<and>
          perps \<lparr> spot = [0], perps = [0], quote = 0 \<rparr> ! 0 \<le> 0 \<and>
          ONE_I80F48 \<le> priceOf orderCache 0 \<and>
          ONE_I80F48 \<le> perpLiabWeight (weightsOf ?g 0 Init)"
    using hc by (simp add: eval_defs orderGroup_def orderCache_def)
  show ?thesis
    using h A [OF hypA] B [OF hypB] C [OF hypC] D [OF hypD] E [OF hypE]
      plain_wellFormed [of ONE_I80F48 0] n
    by auto
qed

text \<open>
  Claim C7 as stated fails. With open orders in the margin basket, raising the borrow
  from 10 to 11 moves the resolver from the bids case to the asks case, and health rises
  from 55 to 72.5 (Init) and from 82.5 to 86.25 (Maint), the liability weights being 1.25
  and 1.125. Without open orders, at price 0.25 and liability weight 1, borrows of
  \<open>5 * 2^-48\<close> and \<open>6 * 2^-48\<close> give the same health: the products are truncated.
\<close>

theorem borrow_can_raise_health:
  "flipAccount (fromNumber 11) = withBorrow (flipAccount (fromNumber 10)) 0 (fromNumber 11) \<and>
   0 < initLiabWeight (spotMarkets flipGroup ! 0) \<and> 0 < maintLiabWeight (spotMarkets flipGroup ! 0) \<and>
   getHealth flipGroup orderCache (flipAccount (fromNumber 10)) Init = Some (fromNumber 55) \<and>
   getHealth flipGroup orderCache (flipAccount (fromNumber 11)) Init = Some (145 * 2 ^ 47) \<and>
   fromNumber 55 < (145 * 2 ^ 47 :: int) \<and>
   getHealth flipGroup orderCache (flipAccount (fromNumber 10)) Maint = Some (165 * 2 ^ 47) \<and>
   getHealth flipGroup orderCache (flipAccount (fromNumber 11)) Maint = Some (345 * 2 ^ 46) \<and>
   (165 * 2 ^ 47 :: int) < 345 * 2 ^ 46 \<and>
   plainAccount 6 = withBorrow (plainAccount 5) 0 6 \<and>
   getHealth (orderGroup ONE_I80F48) quarterPriceCache (plainAccount 5) Init = Some (- 1) \<and>
   getHealth (orderGroup ONE_I80F48) quarterPriceCache (plainAccount 6) Init = Some (- 1) \<and>
   getHealth (orderGroup ONE_I80F48) quarterPriceCache (plainAccount 5) Maint = Some (- 1) \<and>
   getHealth (orderGroup ONE_I80F48) quarterPriceCache (plainAccount 6) Maint = Some (- 1)"
  unfolding flip_health_10_Init flip_health_11_Init flip_health_10_Maint flip_health_11_Maint
    quarter_health_5 quarter_health_6
  by (simp add: flipAccount_def plainAccount_def withBorrow_def flipGroup_def fromNumber_def
      MULTIPLIER_def)

section \<open>The worst-case order selection example\<close>

text \<open>
  Claim C8, amended. For the snapshot with one spot market, \<open>baseFree = 0\<close>,
  \<open>baseLocked = 0\<close>, \<open>quoteFree = 0\<close>, \<open>quoteLocked = 500\<close>, price 10, a quote
  deposit of 1000 at deposit index 1 and spot Init asset weight \<open>w\<close>, the resolver takes
  the bids case (50 against 0) with \<open>spot[0] = 50\<close>, leaves \<open>quote\<close> at 1000, and
  \<open>health(Init)\<close> is \<open>1000 + 500 * w\<close> exactly, for every fixed-point weight \<open>w\<close>;
  no fixed-point weight makes it 1450.
\<close>

theorem order_snapshot_health:
  "getHealthComponents (orderGroup w) orderCache orderAccount =
     Some \<lparr> spot = [fromNumber 50], perps = [0], quote = fromNumber 1000 \<rparr> \<and>
   spotBidsCase orderCache orderAccount 0
     \<lparr> quoteFree = 0, quoteLocked = fromNumber 500, baseFree = 0, baseLocked = 0 \<rparr> = fromNumber 50 \<and>
   spotAsksCase orderCache orderAccount 0
     \<lparr> quoteFree = 0, quoteLocked = fromNumber 500, baseFree = 0, baseLocked = 0 \<rparr> = 0 \<and>
   getHealth (orderGroup w) orderCache orderAccount Init = Some (fromNumber 1000 + 500 * w) \<and>
   getHealth (orderGroup w) orderCache orderAccount Init \<noteq> Some (fromNumber 1450)"
  using getHealthComponents_resolved [OF orderSnapshot_wellFormed, of w]
    getHealth_closed [OF orderSnapshot_wellFormed, of w Init] order_health_never_1450 [of w]
  by (simp add: order_resolved order_healthOf order_bids order_asks)

text \<open>
  Claim C8 as stated fails: 0.9 is not a multiple of \<open>2^-48\<close>. With the fixed-point
  weight just below 0.9 the health is \<open>1450 - 200 * 2^-48\<close>, with the one just above
  it is \<open>1450 + 300 * 2^-48\<close>; neither is 1450.
\<close>

theorem order_snapshot_health_not_1450:
  "253327479039590 * 10 < 9 * MULTIPLIER \<and> 9 * MULTIPLIER < 253327479039591 * 10 \<and>
   getHealth (orderGroup 253327479039590) orderCache orderAccount Init
     = Some (fromNumber 1450 - 200) \<and>
   getHealth (orderGroup 253327479039591) orderCache orderAccount Init
     = Some (fromNumber 1450 + 300)"
  using getHealth_closed [OF orderSnapshot_wellFormed, of 253327479039590 Init]
    getHealth_closed [OF orderSnapshot_wellFormed, of 253327479039591 Init]
  by (simp add: order_resolved order_healthOf) (simp add: fromNumber_def MULTIPLIER_def)

section \<open>The all-zero snapshot\<close>

text \<open>
  Claim C9. For every well-formed snapshot whose account is all zero (deposits, borrows,
  open-orders amounts and perp positions), \<open>health(Init)\<close> and \<open>health(Maint)\<close> are 0
  and the health ratio is 100 for both health types.
\<close>

theorem zero_snapshot_health:
  assumes "wellFormed g c acct" and "zeroAccount acct"
  shows "getHealth g c acct Init = Some 0 \<and> getHealth g c acct Maint = Some 0 \<and>
         getHealthRatio g c acct Init = Some (fromNumber 100) \<and>
         getHealthRatio g c acct Maint = Some (fromNumber 100)"
proof -
  have h: "getHealth g c acct healthType = Some 0" for healthType
    using getHealth_closed [OF assms(1), of healthType]
    by (simp add: zero_resolved [OF assms] zero_healthOf)
  have r: "getHealthRatio g c acct healthType = Some (fromNumber 100)" for healthType
    using getHealthComponents_resolved [OF assms(1)]
      getWeightedAssetsLiabsVals_closed [OF resolved_covers [OF assms(1)], of _ healthType]
    by (simp add: getHealthRatio_def zero_resolved [OF assms] zero_assetsLiabsOf I80F48_gt_def
        ZERO_I80F48_def)
  show ?thesis using h r by simp
qed

theorem zero_snapshot_health_witness:
  "wellFormed perpGroup orderCache zeroSnapshotAccount \<and> zeroAccount zeroSnapshotAccount \<and>
   getHealth perpGroup orderCache zeroSnapshotAccount Init = Some 0 \<and>
   getHealth perpGroup orderCache zeroSnapshotAccount Maint = Some 0 \<and>
   getHealthRatio perpGroup orderCache zeroSnapshotAccount Init = Some (fromNumber 100) \<and>
   getHealthRatio perpGroup orderCache zeroSnapshotAccount Maint = Some (fromNumber 100)"
  using zero_snapshot_health [OF zeroSnapshot_wellFormed zeroSnapshot_zero]
    zeroSnapshot_wellFormed zeroSnapshot_zero
  by simp

section \<open>Nonnegative assets and liabilities\<close>

text \<open>
  Claim C10, amended. For every health type for which the prices and the risk weights
  of the markets are not negative, the assets and liabilities returned by
  \<open>getWeightedAssetsLiabsVals\<close> are both nonnegative, for any component arrays that cover
  the oracle range and for the components of any well-formed snapshot; and
  \<open>getHealthRatio\<close> returns a value that is at least \<open>-100\<close>.
\<close>

theorem assets_liabs_nonnegative:
  assumes "wellFormed g c acct" and "nonnegativeMarkets g c healthType"
    and "coversOracles g c spot' perps'"
  shows "\<exists>al hc al' r.
           getWeightedAssetsLiabsVals g c spot' perps' quote' healthType = Some al \<and>
           0 \<le> assets al \<and> 0 \<le> liabs al \<and>
           getHealthComponents g c acct = Some hc \<and>
           getWeightedAssetsLiabsVals g c (spot hc) (perps hc) (quote hc) healthType = Some al' \<and>
           0 \<le> assets al' \<and> 0 \<le> liabs al' \<and>
           getHealthRatio g c acct healthType = Some r \<and> fromNumber (- 100) \<le> r"
proof -
  let ?hc = "resolved g c acct"
  let ?al = "assetsLiabsOf g c (spot ?hc) (perps ?hc) (quote ?hc) healthType"
  have nn: "0 \<le> assets ?al" "0 \<le> liabs ?al"
    using assetsLiabsOf_nonneg [OF assms(2)] by simp_all
  have "0 \<le> I80F48_quot (assets ?al) (liabs ?al)"
    using nn by (rule I80F48_quot_nonneg)
  then have r: "fromNumber (- 100) \<le> I80F48_mul (I80F48_quot (assets ?al) (liabs ?al) - ONE_I80F48) (fromNumber 100)"
    unfolding mul_fromNumber by (simp add: fromNumber_def ONE_I80F48_def)
  have r100: "fromNumber (- 100) \<le> fromNumber 100"
    by (simp add: fromNumber_def MULTIPLIER_def)
  show ?thesis
    using getHealthComponents_resolved [OF assms(1)]
      getWeightedAssetsLiabsVals_closed [OF resolved_covers [OF assms(1)], of _ healthType]
      getWeightedAssetsLiabsVals_closed [OF assms(3), of quote' healthType]
      assetsLiabsOf_nonneg [OF assms(2), of spot' perps' quote'] nn r r100
    by (simp add: getHealthRatio_def I80F48_gt_def ZERO_I80F48_def I80F48_div_def I80F48_sub_def)
qed

theorem assets_liabs_nonnegative_witness:
  "wellFormed flipGroup orderCache (flipAccount (fromNumber 100)) \<and>
   nonnegativeMarkets flipGroup orderCache Init \<and>
   coversOracles flipGroup orderCache [fromNumber (- 100)] [0] \<and>
   (\<exists>al r. getWeightedAssetsLiabsVals flipGroup orderCache [fromNumber (- 100)] [0]
               (fromNumber 210) Init = Some al \<and>
      0 \<le> assets al \<and> 0 \<le> liabs al \<and>
      getHealthRatio flipGroup orderCache (flipAccount (fromNumber 100)) Init = Some r \<and>
      fromNumber (- 100) \<le> r)"
  using assets_liabs_nonnegative [OF flip_wellFormed [of "fromNumber 100"]
      flip_nonnegative [of Init] flip_covers [of "fromNumber (- 100)" 0],
      where quote' = "fromNumber 210"]
    flip_wellFormed flip_nonnegative flip_covers
  by blast

text \<open>
  Claim C10 as stated fails for a market with a negative asset weight (a leverage
  parameter below 1 gives one): with spot Init asset weight \<open>-1\<close>, a spot component of
  50 at price 10 and a quote balance of \<open>-1000\<close>, the assets are \<open>-500\<close> and the health
  ratio is \<open>-150\<close>.
\<close>

theorem negative_weight_assets:
  "getWeightedAssetsLiabsVals (orderGroup (- ONE_I80F48)) orderCache
       [fromNumber 50] [0] (fromNumber (- 1000)) Init
     = Some \<lparr> assets = fromNumber (- 500), liabs = fromNumber 1000 \<rparr> \<and>
   fromNumber (- 500) < 0 \<and>
   getHealthRatio (orderGroup (- ONE_I80F48)) orderCache debtAccount Init
     = Some (fromNumber (- 150)) \<and>
   fromNumber (- 150) < fromNumber (- 100)"
proof -
  have a: "getWeightedAssetsLiabsVals (orderGroup (- ONE_I80F48)) orderCache
       [fromNumber 50] [0] (fromNumber (- 1000)) Init
     = Some \<lparr> assets = fromNumber (- 500), liabs = fromNumber 1000 \<rparr>"
    using getWeightedAssetsLiabsVals_closed [OF debt_covers, of "- ONE_I80F48" "fromNumber (- 1000)" Init]
    by (simp add: debt_assetsLiabs)
  have r: "getHealthRatio (orderGroup (- ONE_I80F48)) orderCache debtAccount Init
     = Some (fromNumber (- 150))"
    using getHealthComponents_resolved [OF debt_wellFormed, of "- ONE_I80F48"] a
    by (simp add: getHealthRatio_def debt_resolved)
       (simp add: I80F48_gt_def I80F48_div_def I80F48_sub_def eval_defs ZERO_I80F48_def)
  show ?thesis using a r by (simp add: fromNumber_def MULTIPLIER_def)
qed

end
